theory Spec2Isabelle
  imports Complex_Main "HOL-Library.Sublist"
begin

section \<open>Python values\<close>

text \<open>
  The values that travel between the agent, the bootstrap script, the sandbox manager and
  the run registry are what \<^verbatim>\<open>json.loads\<close> produces: \<^verbatim>\<open>None\<close>, booleans, numbers,
  strings, lists and dictionaries with string keys. A dictionary is an association list
  read with \<open>map_of\<close>. A float is represented by its numeric value; the code only ever
  inspects its truth value.
\<close>

datatype pyval =
    PNone
  | PBool bool
  | PInt int
  | PFloat rat
  | PStr string
  | PList "pyval list"
  | PDict "(string \<times> pyval) list"

text \<open>Python truthiness, as \<^verbatim>\<open>not patch\<close> and \<^verbatim>\<open>if result.get("success")\<close> use it.\<close>

fun truthy :: "pyval \<Rightarrow> bool" where
  "truthy PNone = False"
| "truthy (PBool b) = b"
| "truthy (PInt i) = (i \<noteq> 0)"
| "truthy (PFloat x) = (x \<noteq> 0)"
| "truthy (PStr s) = (s \<noteq> [])"
| "truthy (PList xs) = (xs \<noteq> [])"
| "truthy (PDict kvs) = (kvs \<noteq> [])"

text \<open>\<^verbatim>\<open>d.get(key, default)\<close> and \<^verbatim>\<open>key in d\<close>.\<close>

definition dict_get :: "(string \<times> pyval) list \<Rightarrow> string \<Rightarrow> pyval \<Rightarrow> pyval" where
  "dict_get kvs k dflt = (case map_of kvs k of None \<Rightarrow> dflt | Some v \<Rightarrow> v)"

definition dict_has :: "(string \<times> pyval) list \<Rightarrow> string \<Rightarrow> bool" where
  "dict_has kvs k = (map_of kvs k \<noteq> None)"

section \<open>Output extractor (main.py, execute\_agent\_run, lines 260--268)\<close>

text \<open>
  \<^verbatim>\<open>
  patch = ""
  if isinstance(run_result.output, dict):
      patch = run_result.output.get("patch", "")
      if not patch and "result" in run_result.output:
          if isinstance(run_result.output["result"], dict):
              patch = run_result.output["result"].get("patch", "")
          elif isinstance(run_result.output["result"], str):
              patch = run_result.output["result"]
  \<close>
\<close>

definition canonical_patch :: "pyval \<Rightarrow> pyval" where
  "canonical_patch out =
     (case out of
        PDict kvs \<Rightarrow>
          (let patch = dict_get kvs ''patch'' (PStr '''') in
           if \<not> truthy patch \<and> dict_has kvs ''result'' then
             (case map_of kvs ''result'' of
                Some (PDict res) \<Rightarrow> dict_get res ''patch'' (PStr '''')
              | Some (PStr s) \<Rightarrow> PStr s
              | _ \<Rightarrow> patch)
           else patch)
      | _ \<Rightarrow> PStr '''')"

section \<open>Python strings\<close>

text \<open>
  \<^verbatim>\<open>str.split('\n')\<close>, \<^verbatim>\<open>str.strip()\<close>, \<^verbatim>\<open>startswith\<close>, \<^verbatim>\<open>endswith\<close>, the substring test
  \<^verbatim>\<open>sub in s\<close> and \<^verbatim>\<open>str(n)\<close> for an integer. Strings are lists of 8-bit characters, so
  \<open>isspace\<close> is Python's whitespace test on the ASCII range.
\<close>

fun split_nl :: "string \<Rightarrow> string list" where
  "split_nl [] = [[]]"
| "split_nl (c # cs) =
     (if c = CHR 0x0A then [] # split_nl cs
      else (case split_nl cs of [] \<Rightarrow> [[c]] | l # ls \<Rightarrow> (c # l) # ls))"

definition isspace :: "char \<Rightarrow> bool" where
  "isspace c = (c \<in> set [CHR 0x09, CHR 0x0A, CHR 0x0B, CHR 0x0C, CHR 0x0D,
                            CHR 0x1C, CHR 0x1D, CHR 0x1E, CHR 0x1F, CHR 0x20])"

definition strip :: "string \<Rightarrow> string" where
  "strip s = rev (dropWhile isspace (rev (dropWhile isspace s)))"

definition startswith :: "string \<Rightarrow> string \<Rightarrow> bool" where
  "startswith s p = (take (length p) s = p)"

definition endswith :: "string \<Rightarrow> string \<Rightarrow> bool" where
  "endswith s p = (length p \<le> length s \<and> drop (length s - length p) s = p)"

fun contains :: "string \<Rightarrow> string \<Rightarrow> bool" where
  "contains [] sub = (sub = [])"
| "contains (c # cs) sub = (startswith (c # cs) sub \<or> contains cs sub)"

fun str_nat :: "nat \<Rightarrow> string" where
  "str_nat n =
     (if n < 10 then [''0123456789'' ! n]
      else str_nat (n div 10) @ [''0123456789'' ! (n mod 10)])"

definition str_int :: "int \<Rightarrow> string" where
  "str_int i = (if i < 0 then CHR ''-'' # str_nat (nat (- i)) else str_nat (nat i))"

section \<open>Sandbox manager (docker\_runner.py)\<close>

text \<open>
  Exceptions are values. \<open>TimeoutError\<close> is \<^verbatim>\<open>asyncio.TimeoutError\<close>; \<open>OtherError\<close> is any
  other \<^verbatim>\<open>Exception\<close>, carrying \<^verbatim>\<open>str(e)\<close>.
\<close>

datatype exn = TimeoutError | OtherError string

subsection \<open>\_wait\_for\_container (lines 358--371)\<close>

text \<open>
  One \<open>poll\<close> is one pass through the loop test: \<open>elapsed\<close> is the value of
  \<^verbatim>\<open>time.time() - start_time\<close> read by the test, \<open>reload\<close> is what
  \<^verbatim>\<open>container.reload()\<close> then shows (the status string and the exit code of the unit),
  or the exception it raises. The loop consumes the observations in order; when they run
  out the loop is still polling and the function has not returned (\<open>None\<close>).
\<close>

datatype reload_result = Reloaded string int | ReloadRaised string

record poll =
  elapsed :: rat
  reload :: reload_result

record wait_result =
  exit_code :: int
  container_status :: string

fun wait_for_container :: "poll list \<Rightarrow> int \<Rightarrow> (exn + wait_result) option" where
  "wait_for_container [] timeout = None"
| "wait_for_container (p # ps) timeout =
     (if elapsed p < of_int timeout then
        (case reload p of
           ReloadRaised msg \<Rightarrow> Some (Inl (OtherError msg))
         | Reloaded st code \<Rightarrow>
             if st = ''exited'' \<or> st = ''dead''
             then Some (Inr \<lparr>exit_code = code, container_status = st\<rparr>)
             else wait_for_container ps timeout)
      else Some (Inl TimeoutError))"

subsection \<open>\_extract\_output\_from\_logs (lines 373--383)\<close>

text \<open>
  \<^verbatim>\<open>json.loads\<close> is a parameter \<open>loads\<close>: \<open>Inl msg\<close> when it raises, \<open>Inr v\<close> when it
  returns \<open>v\<close>. \<open>scan_lines\<close> is the \<^verbatim>\<open>for line in reversed(lines)\<close> loop, run on the
  reversed list.
\<close>

fun scan_lines :: "(string \<Rightarrow> string + pyval) \<Rightarrow> string list \<Rightarrow> pyval option" where
  "scan_lines loads [] = None"
| "scan_lines loads (line # rest) =
     (if startswith (strip line) ''{'' \<and> endswith (strip line) ''}'' then
        (case loads line of
           Inr v \<Rightarrow> Some v
         | Inl msg \<Rightarrow> scan_lines loads rest)
      else scan_lines loads rest)"

definition extract_output_from_logs :: "(string \<Rightarrow> string + pyval) \<Rightarrow> string \<Rightarrow> pyval" where
  "extract_output_from_logs loads logs =
     (case scan_lines loads (rev (split_nl logs)) of
        Some v \<Rightarrow> v
      | None \<Rightarrow> PDict [(''logs'', PStr logs)])"

subsection \<open>run\_agent (lines 53--253)\<close>

text \<open>
  What the environment decides during one call:
  \<^item> \<open>setup_raises\<close>: the exception, if any, raised while the workspace is materialised and
    the execution unit is launched (lines 78--185; the proxy registration of lines
    131--157 swallows its own exceptions);
  \<^item> \<open>polls\<close>: the observations of the wait loop;
  \<^item> \<open>container_logs\<close>: the captured streams decoded as UTF-8 (line 191), or the exception
    the decoding raises;
  \<^item> \<open>output_file\<close>: the text of \<^verbatim>\<open>output.json\<close> in the workspace when it exists.

  The dictionary the function returns is the record \<open>agent_result\<close>; a key that a
  branch leaves out is \<open>None\<close>. The key \<^verbatim>\<open>execution_time\<close> is left out: nothing reads
  it. The \<^verbatim>\<open>finally\<close> block (lines 233--253) swallows every exception of the teardown,
  so it changes no returned value. Every \<^verbatim>\<open>Exception\<close> raised in the body is caught at
  line 212 or line 225: the function returns a dictionary on every path.
\<close>

record sandbox_env =
  setup_raises :: "string option"
  polls :: "poll list"
  container_logs :: "string + string"
  output_file :: "string option"

record agent_result =
  res_success :: bool
  res_output :: "pyval option"
  res_error :: "string option"
  res_logs :: "string list"
  res_exit_code :: "int option"

definition error_result :: "string \<Rightarrow> agent_result" where
  "error_result msg =
     \<lparr>res_success = False, res_output = None, res_error = Some msg, res_logs = [],
      res_exit_code = None\<rparr>"

definition run_agent ::
  "(string \<Rightarrow> string + pyval) \<Rightarrow> int \<Rightarrow> sandbox_env \<Rightarrow> agent_result option" where
  "run_agent loads timeout env =
     (case setup_raises env of
        Some msg \<Rightarrow> Some (error_result msg)
      | None \<Rightarrow>
          (case wait_for_container (polls env) timeout of
             None \<Rightarrow> None
           | Some (Inl TimeoutError) \<Rightarrow>
               Some (error_result
                 (''Execution timed out after '' @ str_int timeout @ '' seconds''))
           | Some (Inl (OtherError msg)) \<Rightarrow> Some (error_result msg)
           | Some (Inr result) \<Rightarrow>
               (case container_logs env of
                  Inl msg \<Rightarrow> Some (error_result msg)
                | Inr logs \<Rightarrow>
                    (case (case output_file env of
                             Some text \<Rightarrow> loads text
                           | None \<Rightarrow> Inr (extract_output_from_logs loads logs)) of
                       Inl msg \<Rightarrow> Some (error_result msg)
                     | Inr output \<Rightarrow>
                         Some \<lparr>res_success = (exit_code result = 0),
                               res_output = Some output,
                               res_error = None,
                               res_logs = split_nl logs,
                               res_exit_code = Some (exit_code result)\<rparr>))))"

subsection \<open>The bootstrap script (\_create\_runner\_script, lines 265--356)\<close>

text \<open>
  The script is the text the f-string of lines 265--356 produces; \<open>runner_script\<close> is what
  running it does, as a function of what happens inside the execution unit:
  \<^item> \<open>import_outcome\<close>: \<^verbatim>\<open>import agent\<close> succeeds (\<open>Imported b\<close>, where \<open>b\<close> is
    \<^verbatim>\<open>hasattr(agent, 'agent_main')\<close>), raises \<^verbatim>\<open>ImportError\<close>, or raises another exception,
    which nothing catches;
  \<^item> \<open>agent_outcome\<close>: what the call \<^verbatim>\<open>agent.agent_main(...)\<close> does. It returns a
    value that \<^verbatim>\<open>json.dump\<close> can write (\<open>Returned\<close>, the value as a JSON value); it
    returns a value on which \<^verbatim>\<open>json.dump(output, f, indent=2, default=str)\<close> raises
    (\<open>ReturnedUnwritable\<close>: a dictionary with a key that is neither a string nor a number,
    a cyclic structure); it raises an \<^verbatim>\<open>Exception\<close>, which line 338 catches (\<open>Raised\<close>
    carries \<^verbatim>\<open>str(e)\<close> and the formatted trace); or it ends the process (\<open>Ended c\<close>): it
    calls \<^verbatim>\<open>sys.exit(c)\<close>, raises another exception that is not an \<^verbatim>\<open>Exception\<close>
    (\<^verbatim>\<open>KeyboardInterrupt\<close>), or the process is killed, none of which line 338 catches, and
    the process ends with the status \<open>c\<close> without reaching the lines that write;
  \<^item> \<open>git\<close>: the return code and standard output of \<^verbatim>\<open>git diff HEAD\<close>, or \<open>None\<close> when
    \<^verbatim>\<open>subprocess.run\<close> raises (the script swallows that exception).

  The result is the state of the file \<^verbatim>\<open>/workspace/output.json\<close> when the process ends
  and the exit status of the process. The file is absent (\<open>NoFile\<close>), holds one complete
  document (\<open>Document\<close>), or has been opened for writing and left incomplete because
  \<^verbatim>\<open>json.dump\<close> raised (\<open>PartialFile\<close>; line 351 is outside every \<^verbatim>\<open>try\<close>). An uncaught
  exception ends a Python process with status 1. The workspace is new for each run and the
  script is taken to be the only writer of that file. \<open>py_len\<close> is \<^verbatim>\<open>len\<close>, which raises
  \<^verbatim>\<open>TypeError\<close> (\<open>None\<close>) on a value that has no length.
\<close>

datatype import_outcome = Imported bool | ImportError string | ImportCrashed string

datatype agent_outcome =
    Returned pyval
  | ReturnedUnwritable
  | Raised string string
  | Ended int

datatype file_state = NoFile | PartialFile | Document pyval

record script_result =
  document :: file_state
  exit_status :: int

fun py_len :: "pyval \<Rightarrow> nat option" where
  "py_len (PStr s) = Some (length s)"
| "py_len (PList xs) = Some (length xs)"
| "py_len (PDict kvs) = Some (length kvs)"
| "py_len v = None"

text \<open>Lines 313--329: the patch the script derives from the agent's result.\<close>

definition script_patch :: "bool \<Rightarrow> pyval \<Rightarrow> (int \<times> string) option \<Rightarrow> pyval" where
  "script_patch has_files result git =
     (let patch =
            (case result of
               PDict kvs \<Rightarrow> if dict_has kvs ''patch'' then dict_get kvs ''patch'' PNone else PNone
             | PStr s \<Rightarrow> PStr s
             | _ \<Rightarrow> PNone)
      in if \<not> truthy patch \<and> has_files then
           (case git of
              Some (returncode, stdout) \<Rightarrow>
                if returncode = 0 \<and> stdout \<noteq> [] then PStr stdout else patch
            | None \<Rightarrow> patch)
         else patch)"

text \<open>
  Lines 347--355: write the document, print the patch length, exit with status 0. The
  \<^verbatim>\<open>print\<close> of line 352 evaluates \<^verbatim>\<open>len(output.get('patch', ''))\<close> after the file has
  been written and closed.
\<close>

definition write_output :: "(string \<times> pyval) list \<Rightarrow> script_result" where
  "write_output output_dict =
     (case py_len (dict_get output_dict ''patch'' (PStr [])) of
        None \<Rightarrow> \<lparr>document = Document (PDict output_dict), exit_status = 1\<rparr>
      | Some n \<Rightarrow> \<lparr>document = Document (PDict output_dict), exit_status = 0\<rparr>)"

definition runner_script ::
  "bool \<Rightarrow> import_outcome \<Rightarrow> agent_outcome \<Rightarrow> (int \<times> string) option \<Rightarrow> script_result" where
  "runner_script has_files imp agent git =
     (case imp of
        ImportError msg \<Rightarrow> \<lparr>document = NoFile, exit_status = 1\<rparr>
      | ImportCrashed msg \<Rightarrow> \<lparr>document = NoFile, exit_status = 1\<rparr>
      | Imported has_agent_main \<Rightarrow>
          (case (if has_agent_main then agent
                 else Returned (PDict [(''error'', PStr ''agent_main function not found'')])) of
             Returned result \<Rightarrow>
               write_output
                 [(''result'', result),
                  (''patch'', script_patch has_files result git),
                  (''success'', PBool True)]
           | ReturnedUnwritable \<Rightarrow> \<lparr>document = PartialFile, exit_status = 1\<rparr>
           | Ended c \<Rightarrow> \<lparr>document = NoFile, exit_status = c\<rparr>
           | Raised msg trace \<Rightarrow>
               write_output
                 [(''error'', PStr msg),
                  (''traceback'', PStr trace),
                  (''success'', PBool False)]))"

section \<open>Run registry (models.py, main.py)\<close>

datatype RunStatus = PENDING | QUEUED | RUNNING | COMPLETED | FAILED | TIMEOUT | CANCELLED

text \<open>
  A \<^verbatim>\<open>datetime\<close> is a point on the time line, in seconds; the difference of two of them,
  \<^verbatim>\<open>(a - b).total_seconds()\<close>, is their difference. The fields \<open>run_output\<close> (the field \<^verbatim>\<open>output\<close>) and \<open>patch\<close> hold
  \<open>PNone\<close> until they are assigned.
\<close>

type_synonym datetime = rat

record RunResult =
  run_id :: string
  agent_id :: string
  status :: RunStatus
  created_at :: datetime
  started_at :: "datetime option"
  completed_at :: "datetime option"
  duration_seconds :: "rat option"
  problem_statement :: string
  run_output :: pyval
  patch :: pyval
  error :: "string option"
  logs :: "string list option"
  files_count :: "nat option"
  agent_path :: "string option"

subsection \<open>submit\_run (lines 61--127)\<close>

text \<open>
  The form fields are the arguments; the environment decides the new run id
  (\<^verbatim>\<open>uuid.uuid4()\<close>), the clock readings, whether an archive was uploaded and what its
  extraction gives (the exception, or the extracted files), and what the download of the
  agent artifact gives (the exception, or the path).

  The coroutine suspends at \<^verbatim>\<open>await files_zip.read()\<close> (line 98) and at
  \<^verbatim>\<open>await agent_manager.download_agent(agent_id)\<close> (line 108), and returns at lines 105,
  114 or 127. The record is in \<^verbatim>\<open>runs_db\<close> from line 93 on, so these are the points at
  which another request can observe it. The function returns the record as it stands at
  each of these points, in order, and the background task it has scheduled, if any.
\<close>

datatype zip_upload = NoZip | ZipRaised string | ZipFiles "(string \<times> string) list"

record submit_env =
  new_run_id :: string
  now_created :: datetime
  upload :: zip_upload
  download :: "string + string"
  now_failed :: datetime

record task =
  task_run_id :: string
  task_agent_path :: string
  task_problem_statement :: string
  task_inference_url :: string
  task_api_key :: string
  task_files :: "(string \<times> string) list option"

definition submit_run ::
  "string \<Rightarrow> string \<Rightarrow> string \<Rightarrow> string \<Rightarrow> submit_env \<Rightarrow> RunResult list \<times> task option" where
  "submit_run agent problem url key env =
     (let r0 = \<lparr>run_id = new_run_id env, agent_id = agent, status = PENDING,
                created_at = now_created env, started_at = None, completed_at = None,
                duration_seconds = None, problem_statement = problem, run_output = PNone,
                patch = PNone, error = None, logs = None, files_count = None,
                agent_path = None\<rparr>
      in case upload env of
           ZipRaised msg \<Rightarrow>
             ([r0, r0\<lparr>status := FAILED,
                      error := Some (''Failed to extract ZIP file: '' @ msg),
                      completed_at := Some (now_failed env)\<rparr>], None)
         | _ \<Rightarrow>
             (let extracted_files =
                    (case upload env of ZipFiles fs \<Rightarrow> Some fs | _ \<Rightarrow> None);
                  r1 = (case extracted_files of
                          Some fs \<Rightarrow> r0\<lparr>files_count := Some (length fs)\<rparr>
                        | None \<Rightarrow> r0)
              in case download env of
                   Inl msg \<Rightarrow>
                     ([r0, r1, r1\<lparr>status := FAILED,
                                  error := Some (''Failed to download agent: '' @ msg),
                                  completed_at := Some (now_failed env)\<rparr>], None)
                 | Inr path \<Rightarrow>
                     ([r0, r1, r1\<lparr>agent_path := Some path, status := QUEUED\<rparr>],
                      Some \<lparr>task_run_id = new_run_id env, task_agent_path = path,
                            task_problem_statement = problem, task_inference_url = url,
                            task_api_key = key, task_files = extracted_files\<rparr>)))"

subsection \<open>execute\_agent\_run (lines 229--289)\<close>

text \<open>
  \<open>run_result\<close> is the record \<^verbatim>\<open>runs_db[run_id]\<close> of line 239. \<open>outcome\<close> is what
  \<^verbatim>\<open>await docker_runner.run_agent(...)\<close> does: it has not returned yet (\<open>None\<close>), it
  returns a dictionary (\<open>Inr\<close>), or it raises (\<open>Inl\<close>), which the handlers of lines 278
  and 283 catch. The only suspension point is that \<^verbatim>\<open>await\<close>; lines 257--276 run without
  one, and nothing in them raises (they read a dictionary with \<^verbatim>\<open>get\<close>, index it under a
  membership test, and subtract two datetimes). The function returns the record as it
  stands at the suspension point and, once the call is over, at the end.
\<close>

definition execute_agent_run ::
  "RunResult \<Rightarrow> datetime \<Rightarrow> (exn + agent_result) option \<Rightarrow> datetime \<Rightarrow> RunResult list" where
  "execute_agent_run run_result now_started outcome now_completed =
     (let r1 = run_result\<lparr>status := RUNNING, started_at := Some now_started\<rparr>
      in case outcome of
           None \<Rightarrow> [r1]
         | Some (Inr result) \<Rightarrow>
             (let r2 = r1\<lparr>status := (if res_success result then COMPLETED else FAILED),
                          run_output := (case res_output result of
                                           Some v \<Rightarrow> v
                                         | None \<Rightarrow> PDict [])\<rparr>;
                  r3 = r2\<lparr>patch := canonical_patch (run_output r2),
                          error := res_error result,
                          logs := Some (res_logs result),
                          completed_at := Some now_completed\<rparr>
              in [r1,
                  (case started_at r3 of
                     Some started \<Rightarrow> r3\<lparr>duration_seconds := Some (now_completed - started)\<rparr>
                   | None \<Rightarrow> r3)])
         | Some (Inl TimeoutError) \<Rightarrow>
             [r1, r1\<lparr>status := TIMEOUT,
                      error := Some ''Agent execution timed out'',
                      completed_at := Some now_completed\<rparr>]
         | Some (Inl (OtherError msg)) \<Rightarrow>
             [r1, r1\<lparr>status := FAILED,
                      error := Some (''Execution error: '' @ msg),
                      completed_at := Some now_completed\<rparr>])"

subsection \<open>The life of one run\<close>

text \<open>
  \<open>run_history\<close> chains the two functions the way the service does: the background task
  that \<open>submit_run\<close> schedules runs \<open>execute_agent_run\<close> on the record \<open>submit_run\<close>
  returned, with what \<open>run_agent\<close> gives for the sandbox. The task's arguments reach the
  sandbox only through what the environment then does, which \<open>sandbox_env\<close> holds. The
  result is every state of the record that can be observed, in order. A run that is still
  going on, or that \<open>delete_run\<close> has removed from the registry, has shown a prefix of it.
\<close>

record exec_env =
  now_started :: datetime
  sandbox :: sandbox_env
  now_completed :: datetime

definition run_history ::
  "(string \<Rightarrow> string + pyval) \<Rightarrow> int \<Rightarrow> string \<Rightarrow> string \<Rightarrow> string \<Rightarrow> string \<Rightarrow>
   submit_env \<Rightarrow> exec_env \<Rightarrow> RunResult list" where
  "run_history loads timeout agent problem url key senv eenv =
     (case submit_run agent problem url key senv of
        (observed, None) \<Rightarrow> observed
      | (observed, Some t) \<Rightarrow>
          observed @
          execute_agent_run (last observed) (now_started eenv)
            (map_option Inr (run_agent loads timeout (sandbox eenv)))
            (now_completed eenv))"

text \<open>The vocabulary of the state machine of the specification.\<close>

definition terminal :: "RunStatus \<Rightarrow> bool" where
  "terminal s = (s = COMPLETED \<or> s = FAILED \<or> s = TIMEOUT \<or> s = CANCELLED)"

definition status_trace :: "RunResult list \<Rightarrow> RunStatus list" where
  "status_trace h = remdups_adj (map status h)"

definition lifecycles :: "RunStatus list list" where
  "lifecycles =
     [[PENDING, QUEUED, RUNNING, COMPLETED],
      [PENDING, QUEUED, RUNNING, FAILED],
      [PENDING, QUEUED, RUNNING, TIMEOUT],
      [PENDING, QUEUED, RUNNING, CANCELLED],
      [PENDING, FAILED]]"

subsection \<open>get\_run\_status, stop\_run and delete\_run\<close>

text \<open>
  The registry \<^verbatim>\<open>runs_db\<close> and the sandbox manager's \<^verbatim>\<open>running_containers\<close> are maps
  from run ids. What an operation does to the outside is a list of effects, in the order
  in which the code performs them. \<open>stop_raises c\<close> tells whether \<^verbatim>\<open>container.stop()\<close>
  raises for the unit \<open>c\<close>; \<^verbatim>\<open>stop_run\<close> (docker\_runner.py, lines 385--394) swallows the
  exception, and then never reaches \<^verbatim>\<open>container.remove\<close>.
\<close>

datatype http_error = HTTPException nat string

record api_state =
  runs_db :: "string \<rightharpoonup> RunResult"
  running_containers :: "string \<rightharpoonup> string"

datatype effect =
    StopRun string
  | ContainerStop string
  | ContainerRemove string
  | RecordDeleted string

definition get_run_status :: "api_state \<Rightarrow> string \<Rightarrow> http_error + RunResult" where
  "get_run_status st rid =
     (case runs_db st rid of
        None \<Rightarrow> Inl (HTTPException 404 (''Run '' @ rid @ '' not found''))
      | Some r \<Rightarrow> Inr r)"

definition stop_run ::
  "(string \<Rightarrow> bool) \<Rightarrow> (string \<rightharpoonup> string) \<Rightarrow> string \<Rightarrow> (string \<rightharpoonup> string) \<times> effect list" where
  "stop_run stop_raises containers rid =
     (case containers rid of
        None \<Rightarrow> (containers, [])
      | Some c \<Rightarrow>
          (containers(rid := None),
           ContainerStop c # (if stop_raises c then [] else [ContainerRemove c])))"

definition delete_run ::
  "(string \<Rightarrow> bool) \<Rightarrow> api_state \<Rightarrow> string \<Rightarrow> http_error + api_state \<times> effect list" where
  "delete_run stop_raises st rid =
     (case runs_db st rid of
        None \<Rightarrow> Inl (HTTPException 404 (''Run '' @ rid @ '' not found''))
      | Some run_result \<Rightarrow>
          (let (containers, effects) =
                 (if status run_result = RUNNING \<or> status run_result = QUEUED then
                    (let (cs, es) = stop_run stop_raises (running_containers st) rid
                     in (cs, StopRun rid # es))
                  else (running_containers st, []))
           in Inr (\<lparr>runs_db = (runs_db st)(rid := None), running_containers = containers\<rparr>,
                   effects @ [RecordDeleted rid])))"

section \<open>Inference proxy (proxy\_server.py)\<close>

text \<open>
  \<^verbatim>\<open>run_configs\<close> maps a run id to its configuration; \<open>getenv\<close> is the process
  environment (\<^verbatim>\<open>os.getenv\<close>). \<open>handle_inference\<close> is lines 48--78 of the handler: it
  gives the error the handler raises, or the request the handler then posts to the
  provider (lines 82--86): the address, the headers and the payload.
\<close>

record run_config =
  inference_url :: string
  api_key :: string

record 'p provider_call =
  call_url :: string
  call_headers :: "(string \<times> string) list"
  call_json :: 'p

definition register_run ::
  "(string \<rightharpoonup> run_config) \<Rightarrow> string \<Rightarrow> string \<Rightarrow> string \<Rightarrow> (string \<rightharpoonup> run_config)" where
  "register_run run_configs rid url key =
     run_configs(rid \<mapsto> \<lparr>inference_url = url, api_key = key\<rparr>)"

definition unregister_run :: "(string \<rightharpoonup> run_config) \<Rightarrow> string \<Rightarrow> (string \<rightharpoonup> run_config)" where
  "unregister_run run_configs rid =
     (if rid \<in> dom run_configs then run_configs(rid := None) else run_configs)"

definition os_getenv :: "(string \<rightharpoonup> string) \<Rightarrow> string \<Rightarrow> string \<Rightarrow> string" where
  "os_getenv getenv name dflt = (case getenv name of None \<Rightarrow> dflt | Some v \<Rightarrow> v)"

definition authorization :: "run_config \<Rightarrow> string" where
  "authorization config =
     (if startswith (api_key config) ''Bearer '' then api_key config
      else if contains (inference_url config) ''chutes'' \<or> contains (api_key config) ''Bearer''
      then ''Bearer '' @ api_key config
      else ''Bearer '' @ api_key config)"

definition handle_inference ::
  "(string \<rightharpoonup> run_config) \<Rightarrow> (string \<rightharpoonup> string) \<Rightarrow> string \<Rightarrow> 'p \<Rightarrow> http_error + 'p provider_call" where
  "handle_inference run_configs getenv rid provider_request =
     (case (case run_configs rid of
              None \<Rightarrow>
                (let url = os_getenv getenv ''INFERENCE_URL''
                             ''https://api.openai.com/v1/chat/completions'';
                     key = os_getenv getenv ''API_KEY'' ''''
                 in if key = [] then
                      Inl (HTTPException 401 ''No API key configured for this run'')
                    else Inr \<lparr>inference_url = url, api_key = key\<rparr>)
            | Some config \<Rightarrow> Inr config) of
        Inl e \<Rightarrow> Inl e
      | Inr config \<Rightarrow>
          Inr \<lparr>call_url = inference_url config,
                call_headers = [(''Content-Type'', ''application/json''),
                                (''Authorization'', authorization config)],
                call_json = provider_request\<rparr>)"

section \<open>Vocabulary of the properties\<close>

text \<open>
  A log line counts as structured data when it passes the test of
  \<^verbatim>\<open>_extract_output_from_logs\<close>: stripped of surrounding whitespace it starts with an
  opening brace and ends with a closing brace, and \<^verbatim>\<open>json.loads\<close> accepts it.
\<close>

definition structured_line :: "(string \<Rightarrow> string + pyval) \<Rightarrow> string \<Rightarrow> bool" where
  "structured_line loads line =
     (startswith (strip line) ''{'' \<and> endswith (strip line) ''}'' \<and>
      (case loads line of Inr v \<Rightarrow> True | Inl msg \<Rightarrow> False))"

section \<open>Concrete inputs\<close>

text \<open>
  Inputs at which the theorems below are instantiated. \<open>demo_loads\<close> agrees with
  \<^verbatim>\<open>json.loads\<close> on the texts it is applied to: the empty object, the empty list, the
  document \<open>failure_text\<close> (an object whose only key is \<^verbatim>\<open>success\<close>, with the value
  \<^verbatim>\<open>false\<close>), and texts that are not JSON.
\<close>

definition failure_text :: string where
  "failure_text = ''{'' @ [CHR 0x22] @ ''success'' @ [CHR 0x22] @ '': false}''"

definition demo_loads :: "string \<Rightarrow> string + pyval" where
  "demo_loads s =
     (if s = ''{}'' then Inr (PDict [])
      else if s = ''[]'' then Inr (PList [])
      else if s = failure_text then Inr (PDict [(''success'', PBool False)])
      else Inl ''Expecting value'')"

definition demo_polls :: "poll list" where
  "demo_polls = [\<lparr>elapsed = 0, reload = Reloaded ''running'' 0\<rparr>,
                 \<lparr>elapsed = 1, reload = Reloaded ''exited'' 0\<rparr>]"

definition demo_logs :: string where
  "demo_logs = ''start'' @ [CHR 0x0A] @ ''{}'' @ [CHR 0x0A] @ ''{oops}'' @ [CHR 0x0A] @ ''end''"

definition plain_logs :: string where
  "plain_logs = ''no json here'' @ [CHR 0x0A] @ ''{oops}''"

definition demo_configs :: "string \<rightharpoonup> run_config" where
  "demo_configs =
     [''run-1'' \<mapsto> \<lparr>inference_url = ''https://llm.example/v1/chat'', api_key = ''sk-run-1''\<rparr>]"

definition demo_getenv :: "string \<rightharpoonup> string" where
  "demo_getenv = [''API_KEY'' \<mapsto> ''sk-default'']"

definition demo_record :: "RunStatus \<Rightarrow> RunResult" where
  "demo_record s =
     \<lparr>run_id = ''run-1'', agent_id = ''agent-7'', status = s, created_at = 0,
      started_at = None, completed_at = None, duration_seconds = None,
      problem_statement = ''fix the bug'', run_output = PNone, patch = PNone, error = None,
      logs = None, files_count = None, agent_path = None\<rparr>"

definition demo_state :: "RunStatus \<Rightarrow> api_state" where
  "demo_state s =
     \<lparr>runs_db = [''run-1'' \<mapsto> demo_record s], running_containers = [''run-1'' \<mapsto> ''c1'']\<rparr>"

definition timeout_polls :: "poll list" where
  "timeout_polls = [\<lparr>elapsed = 0, reload = Reloaded ''running'' 0\<rparr>,
                    \<lparr>elapsed = 150, reload = Reloaded ''running'' 0\<rparr>,
                    \<lparr>elapsed = 301, reload = Reloaded ''running'' 0\<rparr>]"

definition demo_submit :: submit_env where
  "demo_submit =
     \<lparr>new_run_id = ''run-1'', now_created = 100, upload = NoZip,
      download = Inr ''/tmp/agents/agent-7.py'', now_failed = 101\<rparr>"

definition demo_exec :: "sandbox_env \<Rightarrow> exec_env" where
  "demo_exec sb = \<lparr>now_started = 102, sandbox = sb, now_completed = 110\<rparr>"

definition demo_history :: "sandbox_env \<Rightarrow> RunResult list" where
  "demo_history sb =
     run_history demo_loads 300 ''agent-7'' ''fix the bug'' ''https://llm.example/v1/chat''
       ''sk-run-1'' demo_submit (demo_exec sb)"

definition clean_exit_sandbox :: sandbox_env where
  "clean_exit_sandbox =
     \<lparr>setup_raises = None, polls = demo_polls, container_logs = Inr demo_logs,
      output_file = Some failure_text\<rparr>"

definition timeout_sandbox :: sandbox_env where
  "timeout_sandbox =
     \<lparr>setup_raises = None, polls = timeout_polls, container_logs = Inr demo_logs,
      output_file = None\<rparr>"

definition undecodable_sandbox :: sandbox_env where
  "undecodable_sandbox =
     \<lparr>setup_raises = None, polls = demo_polls,
      container_logs = Inl ''utf-8 codec cannot decode byte 0xff in position 0'',
      output_file = Some failure_text\<rparr>"

definition unparsable_sandbox :: sandbox_env where
  "unparsable_sandbox =
     \<lparr>setup_raises = None, polls = demo_polls, container_logs = Inr demo_logs,
      output_file = Some ''{oops}''\<rparr>"

definition late_exit_polls :: "poll list" where
  "late_exit_polls = [\<lparr>elapsed = 0, reload = Reloaded ''running'' 0\<rparr>,
                      \<lparr>elapsed = 300, reload = Reloaded ''exited'' 0\<rparr>]"

definition bad_zip_submit :: submit_env where
  "bad_zip_submit = demo_submit\<lparr>upload := ZipRaised ''File is not a zip file''\<rparr>"

definition no_agent_submit :: submit_env where
  "no_agent_submit = demo_submit\<lparr>download := Inl ''Agent agent-7 not found''\<rparr>"

section \<open>Output extractor: patch precedence\<close>

text \<open>
  C2, as the specification states it, fails: a document can have a top-level patch field
  and still get its patch from the result field. The document
  \<^verbatim>\<open>{"patch": "", "result": "P3"}\<close> has a top-level patch field whose value is the empty
  string, and the derived patch is \<^verbatim>\<open>"P3"\<close>.
\<close>

theorem canonical_patch_empty_top_level_counterexample:
  "dict_has [(''patch'', PStr ''''), (''result'', PStr ''P3'')] ''patch'' \<and>
   map_of [(''patch'', PStr ''''), (''result'', PStr ''P3'')] ''patch'' = Some (PStr '''') \<and>
   canonical_patch (PDict [(''patch'', PStr ''''), (''result'', PStr ''P3'')]) = PStr ''P3'' \<and>
   PStr ''P3'' \<noteq> PStr ''''"
  by (simp add: canonical_patch_def dict_has_def dict_get_def)

text \<open>
  C2, amended: the derived patch follows this precedence. (1) If the document has a
  top-level patch field whose value is truthy (for a text: not empty), the patch is that
  value. Otherwise, that is when the top-level patch field is absent or holds a falsy
  value: (2) if the result field is a document, the patch is the value of its patch
  field, and the empty string when it has none; (3) if the result field is plain text, the
  patch is that text; (4) in every other case the patch is the top-level patch value when
  the field is present, and the empty string when it is absent. An output that is not a
  document gives the empty string.
\<close>

theorem canonical_patch_precedence:
  "(map_of kvs ''patch'' = Some p \<and> truthy p \<longrightarrow> canonical_patch (PDict kvs) = p) \<and>
   (\<not> truthy (dict_get kvs ''patch'' (PStr '''')) \<longrightarrow>
      (map_of kvs ''result'' = Some (PDict res) \<longrightarrow>
         canonical_patch (PDict kvs) = dict_get res ''patch'' (PStr '''')) \<and>
      (map_of kvs ''result'' = Some (PStr s) \<longrightarrow> canonical_patch (PDict kvs) = PStr s) \<and>
      ((\<forall>d. map_of kvs ''result'' \<noteq> Some (PDict d)) \<and>
       (\<forall>t. map_of kvs ''result'' \<noteq> Some (PStr t)) \<longrightarrow>
         canonical_patch (PDict kvs) = dict_get kvs ''patch'' (PStr ''''))) \<and>
   ((\<forall>d. out \<noteq> PDict d) \<longrightarrow> canonical_patch out = PStr '''')"
proof (intro conjI impI)
  assume "map_of kvs ''patch'' = Some p \<and> truthy p"
  then show "canonical_patch (PDict kvs) = p"
    by (simp add: canonical_patch_def dict_get_def)
next
  assume "\<not> truthy (dict_get kvs ''patch'' (PStr ''''))"
    and "map_of kvs ''result'' = Some (PDict res)"
  then show "canonical_patch (PDict kvs) = dict_get res ''patch'' (PStr '''')"
    by (simp add: canonical_patch_def dict_has_def Let_def)
next
  assume "\<not> truthy (dict_get kvs ''patch'' (PStr ''''))"
    and "map_of kvs ''result'' = Some (PStr s)"
  then show "canonical_patch (PDict kvs) = PStr s"
    by (simp add: canonical_patch_def dict_has_def Let_def)
next
  assume "\<not> truthy (dict_get kvs ''patch'' (PStr ''''))"
    and "(\<forall>d. map_of kvs ''result'' \<noteq> Some (PDict d)) \<and>
         (\<forall>t. map_of kvs ''result'' \<noteq> Some (PStr t))"
  then show "canonical_patch (PDict kvs) = dict_get kvs ''patch'' (PStr '''')"
    by (auto simp add: canonical_patch_def dict_has_def Let_def
          split: option.splits pyval.splits)
next
  assume "\<forall>d. out \<noteq> PDict d"
  then show "canonical_patch out = PStr ''''"
    by (cases out) (simp_all add: canonical_patch_def)
qed

theorem canonical_patch_precedence_witness:
  "canonical_patch (PDict [(''patch'', PStr ''P'')]) = PStr ''P'' \<and>
   canonical_patch (PDict [(''result'', PDict [(''patch'', PStr ''P2'')])]) = PStr ''P2'' \<and>
   canonical_patch (PDict [(''patch'', PNone), (''result'', PStr ''P3'')]) = PStr ''P3'' \<and>
   canonical_patch (PDict [(''success'', PBool True)]) = PStr '''' \<and>
   canonical_patch (PDict [(''patch'', PNone), (''result'', PInt 7)]) = PNone \<and>
   canonical_patch (PList []) = PStr ''''"
  using
    canonical_patch_precedence [of "[(''patch'', PStr ''P'')]" "PStr ''P''" "[]" "[]" PNone]
    canonical_patch_precedence [of "[(''result'', PDict [(''patch'', PStr ''P2'')])]" PNone
      "[(''patch'', PStr ''P2'')]" "[]" PNone]
    canonical_patch_precedence [of "[(''patch'', PNone), (''result'', PStr ''P3'')]" PNone
      "[]" "''P3''" PNone]
    canonical_patch_precedence [of "[(''success'', PBool True)]" PNone "[]" "[]" PNone]
    canonical_patch_precedence [of "[(''patch'', PNone), (''result'', PInt 7)]" PNone "[]" "[]"
      "PList []"]
  by (simp add: dict_get_def)


section \<open>Sandbox manager: where the output comes from\<close>

lemma scan_lines_none:
  "(scan_lines loads ls = None) = (\<forall>l \<in> set ls. \<not> structured_line loads l)"
  by (induction ls) (auto simp add: structured_line_def split: sum.splits)

lemma scan_lines_first:
  "\<forall>x \<in> set pre. \<not> structured_line loads x \<Longrightarrow> structured_line loads l \<Longrightarrow>
   loads l = Inr v \<Longrightarrow> scan_lines loads (pre @ l # post) = Some v"
  by (induction pre) (auto simp add: structured_line_def split: sum.splits)

lemma extract_output_last_structured:
  assumes "split_nl lg = before @ l # after"
    and "structured_line loads l" and "loads l = Inr v"
    and "\<forall>x \<in> set after. \<not> structured_line loads x"
  shows "extract_output_from_logs loads lg = v"
proof -
  have "rev (split_nl lg) = rev after @ l # rev before"
    using assms(1) by simp
  moreover have "\<forall>x \<in> set (rev after). \<not> structured_line loads x"
    using assms(4) by simp
  ultimately have "scan_lines loads (rev (split_nl lg)) = Some v"
    using scan_lines_first [of "rev after" loads l v "rev before"] assms(2,3) by simp
  then show ?thesis by (simp add: extract_output_from_logs_def)
qed

lemma extract_output_no_structured:
  assumes "\<forall>x \<in> set (split_nl lg). \<not> structured_line loads x"
  shows "extract_output_from_logs loads lg = PDict [(''logs'', PStr lg)]"
proof -
  have "scan_lines loads (rev (split_nl lg)) = None"
    using assms by (simp add: scan_lines_none)
  then show ?thesis by (simp add: extract_output_from_logs_def)
qed

lemma run_agent_exited:
  assumes "setup_raises env = None"
    and "wait_for_container (polls env) timeout = Some (Inr w)"
    and "container_logs env = Inr lg"
  shows "run_agent loads timeout env =
     (case (case output_file env of
              Some text \<Rightarrow> loads text
            | None \<Rightarrow> Inr (extract_output_from_logs loads lg)) of
        Inl msg \<Rightarrow> Some (error_result msg)
      | Inr doc \<Rightarrow>
          Some \<lparr>res_success = (exit_code w = 0), res_output = Some doc, res_error = None,
                res_logs = split_nl lg, res_exit_code = Some (exit_code w)\<rparr>)"
  using assms by (simp add: run_agent_def)

lemma run_agent_undecodable:
  assumes "setup_raises env = None"
    and "wait_for_container (polls env) timeout = Some (Inr w)"
    and "container_logs env = Inl msg"
  shows "run_agent loads timeout env = Some (error_result msg)"
  using assms by (simp add: run_agent_def)

lemma demo_wait:
  "wait_for_container demo_polls 300 = Some (Inr \<lparr>exit_code = 0, container_status = ''exited''\<rparr>)"
  by (simp add: demo_polls_def)

text \<open>
  C8, as stated, fails: the structured output document can exist and not be read. The
  captured streams are decoded first (line 191); when that raises, the call returns an
  error result that has no output at all, although \<^verbatim>\<open>output.json\<close> is there and parses.
\<close>

theorem output_document_unread_counterexample:
  "wait_for_container (polls undecodable_sandbox) 300 =
     Some (Inr \<lparr>exit_code = 0, container_status = ''exited''\<rparr>) \<and>
   output_file undecodable_sandbox = Some failure_text \<and>
   demo_loads failure_text = Inr (PDict [(''success'', PBool False)]) \<and>
   map_option res_output (run_agent demo_loads 300 undecodable_sandbox) = Some None"
  by (simp add: run_agent_def undecodable_sandbox_def demo_wait demo_loads_def
        failure_text_def error_result_def)

text \<open>
  C8, amended: when the poll loop has seen the execution unit exited or dead before the
  timeout, the sandbox manager first captures and decodes the streams of the unit; if
  that raises, the call returns an error result without output, whether the output
  document exists or not. Otherwise it reads the structured output document from the
  fixed workspace path if it exists: the output is the parsed document, and if the file
  does not parse the call returns an error result without output, the logs not being
  consulted. If the file is absent, the output is what the last log line that parses as
  structured data holds; and if no log line does, the output wraps the raw log text under
  the key \<^verbatim>\<open>logs\<close>.
\<close>

theorem run_agent_output_source:
  assumes "setup_raises env = None"
    and "wait_for_container (polls env) timeout = Some (Inr w)"
  shows
    "(container_logs env = Inl msg \<longrightarrow>
        run_agent loads timeout env = Some (error_result msg) \<and>
        res_output (error_result msg) = None) \<and>
     (container_logs env = Inr lg \<longrightarrow>
        (output_file env = Some content \<and> loads content = Inr doc \<longrightarrow>
           map_option res_output (run_agent loads timeout env) = Some (Some doc)) \<and>
        (output_file env = Some content \<and> loads content = Inl msg \<longrightarrow>
           run_agent loads timeout env = Some (error_result msg)) \<and>
        (output_file env = None \<and> split_nl lg = before @ l # after \<and>
         structured_line loads l \<and> loads l = Inr v \<and>
         (\<forall>x \<in> set after. \<not> structured_line loads x) \<longrightarrow>
           map_option res_output (run_agent loads timeout env) = Some (Some v)) \<and>
        (output_file env = None \<and> (\<forall>x \<in> set (split_nl lg). \<not> structured_line loads x) \<longrightarrow>
           map_option res_output (run_agent loads timeout env) =
             Some (Some (PDict [(''logs'', PStr lg)]))))"
proof (intro conjI impI)
  assume "container_logs env = Inl msg"
  then show "run_agent loads timeout env = Some (error_result msg)"
    by (rule run_agent_undecodable [OF assms])
next
  show "res_output (error_result msg) = None"
    by (simp add: error_result_def)
next
  assume c: "container_logs env = Inr lg"
    and "output_file env = Some content \<and> loads content = Inr doc"
  then show "map_option res_output (run_agent loads timeout env) = Some (Some doc)"
    by (simp add: run_agent_exited [OF assms c])
next
  assume c: "container_logs env = Inr lg"
    and "output_file env = Some content \<and> loads content = Inl msg"
  then show "run_agent loads timeout env = Some (error_result msg)"
    by (simp add: run_agent_exited [OF assms c])
next
  assume c: "container_logs env = Inr lg"
    and h: "output_file env = None \<and> split_nl lg = before @ l # after \<and>
      structured_line loads l \<and> loads l = Inr v \<and>
      (\<forall>x \<in> set after. \<not> structured_line loads x)"
  then have "extract_output_from_logs loads lg = v"
    using extract_output_last_structured [of lg before l after loads v] by blast
  with h show "map_option res_output (run_agent loads timeout env) = Some (Some v)"
    by (simp add: run_agent_exited [OF assms c])
next
  assume c: "container_logs env = Inr lg"
    and h: "output_file env = None \<and> (\<forall>x \<in> set (split_nl lg). \<not> structured_line loads x)"
  then have "extract_output_from_logs loads lg = PDict [(''logs'', PStr lg)]"
    using extract_output_no_structured [of lg loads] by blast
  with h show "map_option res_output (run_agent loads timeout env) =
      Some (Some (PDict [(''logs'', PStr lg)]))"
    by (simp add: run_agent_exited [OF assms c])
qed

lemma split_demo_logs: "split_nl demo_logs = [''start''] @ ''{}'' # [''{oops}'', ''end'']"
  by (simp add: demo_logs_def)

lemma split_plain_logs: "split_nl plain_logs = [''no json here'', ''{oops}'']"
  by (simp add: plain_logs_def)

lemma structured_demo:
  "structured_line demo_loads ''{}''"
  "\<not> structured_line demo_loads ''{oops}''"
  "\<not> structured_line demo_loads ''end''"
  "\<not> structured_line demo_loads ''no json here''"
  by (simp_all add: structured_line_def demo_loads_def failure_text_def startswith_def
        endswith_def strip_def isspace_def)

lemma demo_loads_values:
  "demo_loads ''[]'' = Inr (PList [])" "demo_loads ''{}'' = Inr (PDict [])"
  "demo_loads ''{oops}'' = Inl ''Expecting value''"
  by (simp_all add: demo_loads_def failure_text_def)

theorem run_agent_output_source_witness:
  "run_agent demo_loads 300 undecodable_sandbox =
     Some (error_result ''utf-8 codec cannot decode byte 0xff in position 0'') \<and>
   map_option res_output
     (run_agent demo_loads 300
        \<lparr>setup_raises = None, polls = demo_polls, container_logs = Inr demo_logs,
         output_file = Some ''[]''\<rparr>) = Some (Some (PList [])) \<and>
   run_agent demo_loads 300 unparsable_sandbox = Some (error_result ''Expecting value'') \<and>
   map_option res_output
     (run_agent demo_loads 300
        \<lparr>setup_raises = None, polls = demo_polls, container_logs = Inr demo_logs,
         output_file = None\<rparr>) = Some (Some (PDict [])) \<and>
   map_option res_output
     (run_agent demo_loads 300
        \<lparr>setup_raises = None, polls = demo_polls, container_logs = Inr plain_logs,
         output_file = None\<rparr>) = Some (Some (PDict [(''logs'', PStr plain_logs)]))"
proof -
  let ?w = "\<lparr>exit_code = 0, container_status = ''exited''\<rparr>"
  have a: "run_agent demo_loads 300 undecodable_sandbox =
     Some (error_result ''utf-8 codec cannot decode byte 0xff in position 0'')"
    using run_agent_output_source [where env = undecodable_sandbox and timeout = 300
        and w = ?w and loads = demo_loads
        and msg = "''utf-8 codec cannot decode byte 0xff in position 0''"]
      demo_wait
    by (simp add: undecodable_sandbox_def)
  have b: "map_option res_output
     (run_agent demo_loads 300
        \<lparr>setup_raises = None, polls = demo_polls, container_logs = Inr demo_logs,
         output_file = Some ''[]''\<rparr>) = Some (Some (PList []))"
    using run_agent_output_source
      [where env = "\<lparr>setup_raises = None, polls = demo_polls, container_logs = Inr demo_logs,
                     output_file = Some ''[]''\<rparr>"
        and timeout = 300 and w = ?w and loads = demo_loads and lg = demo_logs
        and content = "''[]''" and doc = "PList []"]
      demo_wait demo_loads_values
    by simp
  have c: "run_agent demo_loads 300 unparsable_sandbox = Some (error_result ''Expecting value'')"
    using run_agent_output_source [where env = unparsable_sandbox and timeout = 300
        and w = ?w and loads = demo_loads and lg = demo_logs and content = "''{oops}''"
        and msg = "''Expecting value''"]
      demo_wait demo_loads_values
    by (simp add: unparsable_sandbox_def)
  have d: "map_option res_output
     (run_agent demo_loads 300
        \<lparr>setup_raises = None, polls = demo_polls, container_logs = Inr demo_logs,
         output_file = None\<rparr>) = Some (Some (PDict []))"
    using run_agent_output_source
      [where env = "\<lparr>setup_raises = None, polls = demo_polls, container_logs = Inr demo_logs,
                     output_file = None\<rparr>"
        and timeout = 300 and w = ?w and loads = demo_loads and lg = demo_logs
        and before = "[''start'']" and l = "''{}''" and after = "[''{oops}'', ''end'']"
        and v = "PDict []"]
      demo_wait demo_loads_values split_demo_logs structured_demo
    by simp
  have e: "map_option res_output
     (run_agent demo_loads 300
        \<lparr>setup_raises = None, polls = demo_polls, container_logs = Inr plain_logs,
         output_file = None\<rparr>) = Some (Some (PDict [(''logs'', PStr plain_logs)]))"
    using run_agent_output_source
      [where env = "\<lparr>setup_raises = None, polls = demo_polls, container_logs = Inr plain_logs,
                     output_file = None\<rparr>"
        and timeout = 300 and w = ?w and loads = demo_loads and lg = plain_logs]
      demo_wait split_plain_logs structured_demo
    by simp
  from a b c d e show ?thesis by simp
qed

section \<open>Inference proxy: routing\<close>

lemma handle_inference_registered:
  "run_configs rid = Some config \<Longrightarrow>
   handle_inference run_configs getenv rid req =
     Inr \<lparr>call_url = inference_url config,
           call_headers = [(''Content-Type'', ''application/json''),
                           (''Authorization'', authorization config)],
           call_json = req\<rparr>"
  by (simp add: handle_inference_def)

lemma handle_inference_default:
  "run_configs rid = None \<Longrightarrow> os_getenv getenv ''API_KEY'' '''' \<noteq> [] \<Longrightarrow>
   handle_inference run_configs getenv rid req =
     Inr \<lparr>call_url = os_getenv getenv ''INFERENCE_URL''
                        ''https://api.openai.com/v1/chat/completions'',
           call_headers =
             [(''Content-Type'', ''application/json''),
              (''Authorization'',
               authorization
                 \<lparr>inference_url = os_getenv getenv ''INFERENCE_URL''
                                     ''https://api.openai.com/v1/chat/completions'',
                  api_key = os_getenv getenv ''API_KEY'' ''''\<rparr>)],
           call_json = req\<rparr>"
  by (simp add: handle_inference_def Let_def)

lemma handle_inference_no_credential:
  "run_configs rid = None \<Longrightarrow> os_getenv getenv ''API_KEY'' '''' = [] \<Longrightarrow>
   handle_inference run_configs getenv rid req =
     Inl (HTTPException 401 ''No API key configured for this run'')"
  by (simp add: handle_inference_def Let_def)

lemma unregister_run_absent: "unregister_run run_configs rid rid = None"
  by (auto simp add: unregister_run_def)

text \<open>
  C6: an inference call tagged with a run id that has a registered configuration is sent
  to that run's own endpoint with that run's own credential, whatever the process
  defaults are; with no configuration registered for the run id, and so after the run
  has been unregistered, the call is sent to the default endpoint with the default
  credential; and when there is no default credential either (the variable
  \<^verbatim>\<open>API_KEY\<close> is unset or empty), the call fails with status 401. The credential travels
  in the authorization header, unchanged if it already starts with the bearer prefix and
  with that prefix added otherwise.
\<close>

theorem handle_inference_routing:
  "(run_configs rid = Some config \<longrightarrow>
      handle_inference run_configs getenv rid req =
        Inr \<lparr>call_url = inference_url config,
              call_headers = [(''Content-Type'', ''application/json''),
                              (''Authorization'', authorization config)],
              call_json = req\<rparr>) \<and>
   (handle_inference (register_run run_configs rid url key) getenv rid req =
        Inr \<lparr>call_url = url,
              call_headers = [(''Content-Type'', ''application/json''),
                              (''Authorization'',
                               authorization \<lparr>inference_url = url, api_key = key\<rparr>)],
              call_json = req\<rparr>) \<and>
   (\<forall>configs. configs = run_configs \<and> run_configs rid = None \<or>
              configs = unregister_run run_configs rid \<longrightarrow>
      (os_getenv getenv ''API_KEY'' '''' \<noteq> [] \<longrightarrow>
         handle_inference configs getenv rid req =
           Inr \<lparr>call_url = os_getenv getenv ''INFERENCE_URL''
                              ''https://api.openai.com/v1/chat/completions'',
                 call_headers =
                   [(''Content-Type'', ''application/json''),
                    (''Authorization'',
                     authorization
                       \<lparr>inference_url = os_getenv getenv ''INFERENCE_URL''
                                           ''https://api.openai.com/v1/chat/completions'',
                        api_key = os_getenv getenv ''API_KEY'' ''''\<rparr>)],
                 call_json = req\<rparr>) \<and>
      (getenv ''API_KEY'' = None \<or> getenv ''API_KEY'' = Some [] \<longrightarrow>
         handle_inference configs getenv rid req =
           Inl (HTTPException 401 ''No API key configured for this run''))) \<and>
   authorization config =
     (if startswith (api_key config) ''Bearer '' then api_key config
      else ''Bearer '' @ api_key config)"
proof (intro conjI impI allI)
  assume "run_configs rid = Some config"
  then show "handle_inference run_configs getenv rid req =
        Inr \<lparr>call_url = inference_url config,
              call_headers = [(''Content-Type'', ''application/json''),
                              (''Authorization'', authorization config)],
              call_json = req\<rparr>"
    by (rule handle_inference_registered)
next
  show "handle_inference (register_run run_configs rid url key) getenv rid req =
        Inr \<lparr>call_url = url,
              call_headers = [(''Content-Type'', ''application/json''),
                              (''Authorization'',
                               authorization \<lparr>inference_url = url, api_key = key\<rparr>)],
              call_json = req\<rparr>"
    by (simp add: handle_inference_registered register_run_def)
next
  fix configs
  assume c: "configs = run_configs \<and> run_configs rid = None \<or>
             configs = unregister_run run_configs rid"
    and k: "os_getenv getenv ''API_KEY'' '''' \<noteq> []"
  from c have n: "configs rid = None"
    using unregister_run_absent by auto
  show "handle_inference configs getenv rid req =
           Inr \<lparr>call_url = os_getenv getenv ''INFERENCE_URL''
                              ''https://api.openai.com/v1/chat/completions'',
                 call_headers =
                   [(''Content-Type'', ''application/json''),
                    (''Authorization'',
                     authorization
                       \<lparr>inference_url = os_getenv getenv ''INFERENCE_URL''
                                           ''https://api.openai.com/v1/chat/completions'',
                        api_key = os_getenv getenv ''API_KEY'' ''''\<rparr>)],
                 call_json = req\<rparr>"
    using n k by (simp add: handle_inference_default)
next
  fix configs
  assume c: "configs = run_configs \<and> run_configs rid = None \<or>
             configs = unregister_run run_configs rid"
    and k: "getenv ''API_KEY'' = None \<or> getenv ''API_KEY'' = Some []"
  from c have "configs rid = None"
    using unregister_run_absent by auto
  moreover from k have "os_getenv getenv ''API_KEY'' '''' = []"
    by (auto simp add: os_getenv_def)
  ultimately show "handle_inference configs getenv rid req =
           Inl (HTTPException 401 ''No API key configured for this run'')"
    by (simp add: handle_inference_no_credential)
next
  show "authorization config =
     (if startswith (api_key config) ''Bearer '' then api_key config
      else ''Bearer '' @ api_key config)"
    by (simp add: authorization_def)
qed

theorem handle_inference_routing_witness:
  "handle_inference demo_configs demo_getenv ''run-1'' () =
     Inr \<lparr>call_url = ''https://llm.example/v1/chat'',
           call_headers = [(''Content-Type'', ''application/json''),
                           (''Authorization'', ''Bearer sk-run-1'')],
           call_json = ()\<rparr> \<and>
   handle_inference (unregister_run demo_configs ''run-1'') demo_getenv ''run-1'' () =
     Inr \<lparr>call_url = ''https://api.openai.com/v1/chat/completions'',
           call_headers = [(''Content-Type'', ''application/json''),
                           (''Authorization'', ''Bearer sk-default'')],
           call_json = ()\<rparr> \<and>
   handle_inference demo_configs demo_getenv ''run-2'' () =
     Inr \<lparr>call_url = ''https://api.openai.com/v1/chat/completions'',
           call_headers = [(''Content-Type'', ''application/json''),
                           (''Authorization'', ''Bearer sk-default'')],
           call_json = ()\<rparr> \<and>
   handle_inference (unregister_run demo_configs ''run-1'') Map.empty ''run-1'' () =
     Inl (HTTPException 401 ''No API key configured for this run'')"
proof -
  have a: "authorization \<lparr>inference_url = ''https://llm.example/v1/chat'',
                          api_key = ''sk-run-1''\<rparr> = ''Bearer sk-run-1''"
    using handle_inference_routing
      [of demo_configs "''run-1''"
          "\<lparr>inference_url = ''https://llm.example/v1/chat'', api_key = ''sk-run-1''\<rparr>"
          demo_getenv "()" "[]" "[]"]
    by (simp add: startswith_def)
  have b: "authorization \<lparr>inference_url = ''https://api.openai.com/v1/chat/completions'',
                          api_key = ''sk-default''\<rparr> = ''Bearer sk-default''"
    using handle_inference_routing
      [of demo_configs "''run-1''"
          "\<lparr>inference_url = ''https://api.openai.com/v1/chat/completions'',
            api_key = ''sk-default''\<rparr>"
          demo_getenv "()" "[]" "[]"]
    by (simp add: startswith_def)
  have c: "demo_configs ''run-1'' =
      Some \<lparr>inference_url = ''https://llm.example/v1/chat'', api_key = ''sk-run-1''\<rparr>"
    and d: "demo_configs ''run-2'' = None"
    by (simp_all add: demo_configs_def)
  have e: "os_getenv demo_getenv ''API_KEY'' '''' = ''sk-default''"
    and f: "os_getenv demo_getenv ''INFERENCE_URL''
              ''https://api.openai.com/v1/chat/completions'' =
            ''https://api.openai.com/v1/chat/completions''"
    by (simp_all add: os_getenv_def demo_getenv_def)
  show ?thesis
    using
      handle_inference_routing
        [of demo_configs "''run-1''"
            "\<lparr>inference_url = ''https://llm.example/v1/chat'', api_key = ''sk-run-1''\<rparr>"
            demo_getenv "()" "[]" "[]"]
      handle_inference_routing
        [of demo_configs "''run-2''"
            "\<lparr>inference_url = ''https://llm.example/v1/chat'', api_key = ''sk-run-1''\<rparr>"
            demo_getenv "()" "[]" "[]"]
      handle_inference_routing
        [of demo_configs "''run-1''"
            "\<lparr>inference_url = ''https://llm.example/v1/chat'', api_key = ''sk-run-1''\<rparr>"
            Map.empty "()" "[]" "[]"]
      a b c d e f
    by simp
qed

section \<open>Run registry: deleting a run\<close>

lemma stop_run_untracked: "containers rid = None \<Longrightarrow> stop_run stop_raises containers rid = (containers, [])"
  by (simp add: stop_run_def)

lemma stop_run_effects: "RecordDeleted rid \<notin> set (snd (stop_run stop_raises containers rid'))"
  by (simp add: stop_run_def split: option.splits)

text \<open>
  C7: deleting an existing run whose status is Queued or Running first asks the sandbox
  manager to stop the run and then removes the record, and the record is removed
  whatever the stop does, also when stopping the unit raises; for a tracked run the stop
  reaches the execution unit and the run is no longer tracked afterwards. Deleting a run
  whose status is terminal performs no sandbox operation and leaves the tracked units as
  they are. Deleting an absent run id fails with status 404.
\<close>

theorem delete_run_behaviour:
  "(runs_db st rid = Some r \<and> (status r = QUEUED \<or> status r = RUNNING) \<longrightarrow>
      delete_run stop_raises st rid =
        Inr (\<lparr>runs_db = (runs_db st)(rid := None),
              running_containers = fst (stop_run stop_raises (running_containers st) rid)\<rparr>,
             StopRun rid # snd (stop_run stop_raises (running_containers st) rid) @
               [RecordDeleted rid]) \<and>
      RecordDeleted rid \<notin> set (snd (stop_run stop_raises (running_containers st) rid)) \<and>
      fst (stop_run stop_raises (running_containers st) rid) rid = None \<and>
      (\<forall>c. running_containers st rid = Some c \<longrightarrow>
         hd (snd (stop_run stop_raises (running_containers st) rid)) = ContainerStop c)) \<and>
   (runs_db st rid = Some r \<and> terminal (status r) \<longrightarrow>
      delete_run stop_raises st rid =
        Inr (\<lparr>runs_db = (runs_db st)(rid := None),
              running_containers = running_containers st\<rparr>,
             [RecordDeleted rid])) \<and>
   (runs_db st rid = None \<longrightarrow>
      delete_run stop_raises st rid =
        Inl (HTTPException 404 (''Run '' @ rid @ '' not found'')))"
proof (intro conjI impI allI)
  assume h: "runs_db st rid = Some r \<and> (status r = QUEUED \<or> status r = RUNNING)"
  then show "delete_run stop_raises st rid =
        Inr (\<lparr>runs_db = (runs_db st)(rid := None),
              running_containers = fst (stop_run stop_raises (running_containers st) rid)\<rparr>,
             StopRun rid # snd (stop_run stop_raises (running_containers st) rid) @
               [RecordDeleted rid])"
    by (auto simp add: delete_run_def Let_def split: prod.splits)
next
  show "RecordDeleted rid \<notin> set (snd (stop_run stop_raises (running_containers st) rid))"
    by (rule stop_run_effects)
next
  show "fst (stop_run stop_raises (running_containers st) rid) rid = None"
    by (simp add: stop_run_def split: option.splits)
next
  fix c
  assume "running_containers st rid = Some c"
  then show "hd (snd (stop_run stop_raises (running_containers st) rid)) = ContainerStop c"
    by (simp add: stop_run_def)
next
  assume "runs_db st rid = Some r \<and> terminal (status r)"
  then show "delete_run stop_raises st rid =
        Inr (\<lparr>runs_db = (runs_db st)(rid := None),
              running_containers = running_containers st\<rparr>,
             [RecordDeleted rid])"
    by (auto simp add: delete_run_def terminal_def)
next
  assume "runs_db st rid = None"
  then show "delete_run stop_raises st rid =
        Inl (HTTPException 404 (''Run '' @ rid @ '' not found''))"
    by (simp add: delete_run_def)
qed

theorem delete_run_behaviour_witness:
  "(case delete_run (\<lambda>c. True) (demo_state RUNNING) ''run-1'' of
      Inr (st', effects) \<Rightarrow>
        effects = [StopRun ''run-1'', ContainerStop ''c1'', RecordDeleted ''run-1''] \<and>
        runs_db st' ''run-1'' = None \<and> running_containers st' ''run-1'' = None
    | Inl e \<Rightarrow> False) \<and>
   (case delete_run (\<lambda>c. False) (demo_state QUEUED) ''run-1'' of
      Inr (st', effects) \<Rightarrow>
        effects = [StopRun ''run-1'', ContainerStop ''c1'', ContainerRemove ''c1'',
                   RecordDeleted ''run-1''] \<and>
        runs_db st' ''run-1'' = None \<and> running_containers st' ''run-1'' = None
    | Inl e \<Rightarrow> False) \<and>
   (case delete_run (\<lambda>c. True) (demo_state COMPLETED) ''run-1'' of
      Inr (st', effects) \<Rightarrow>
        effects = [RecordDeleted ''run-1''] \<and>
        runs_db st' ''run-1'' = None \<and> running_containers st' ''run-1'' = Some ''c1''
    | Inl e \<Rightarrow> False) \<and>
   delete_run (\<lambda>c. True) (demo_state COMPLETED) ''run-9'' =
     Inl (HTTPException 404 ''Run run-9 not found'')"
proof -
  have s: "stop_run (\<lambda>c. True) [''run-1'' \<mapsto> ''c1''] ''run-1'' =
             (Map.empty, [ContainerStop ''c1''])"
    "stop_run (\<lambda>c. False) [''run-1'' \<mapsto> ''c1''] ''run-1'' =
             (Map.empty, [ContainerStop ''c1'', ContainerRemove ''c1''])"
    by (simp_all add: stop_run_def)
  show ?thesis
    using
      delete_run_behaviour [of "demo_state RUNNING" "''run-1''" "demo_record RUNNING" "\<lambda>c. True"]
      delete_run_behaviour [of "demo_state QUEUED" "''run-1''" "demo_record QUEUED" "\<lambda>c. False"]
      delete_run_behaviour [of "demo_state COMPLETED" "''run-1''" "demo_record COMPLETED"
        "\<lambda>c. True"]
      delete_run_behaviour [of "demo_state COMPLETED" "''run-9''" "demo_record COMPLETED"
        "\<lambda>c. True"]
      s
    by (simp add: demo_state_def demo_record_def terminal_def)
qed

section \<open>Run registry: the life of a run\<close>

text \<open>Removing adjacent repetitions from an initial segment gives an initial segment.\<close>

lemma remdups_adj_take:
  "\<exists>m. remdups_adj (take n xs) = take m (remdups_adj xs)"
proof (induction xs arbitrary: n)
  case Nil
  then show ?case by simp
next
  case (Cons a xs)
  show ?case
  proof (cases n)
    case 0
    then show ?thesis by simp
  next
    case (Suc k)
    obtain m where m: "remdups_adj (take k xs) = take m (remdups_adj xs)"
      using Cons.IH by blast
    show ?thesis
    proof (cases "take m (remdups_adj xs)")
      case Nil
      with m have "take k xs = []" by simp
      moreover obtain zs where "remdups_adj (a # xs) = a # zs"
        using hd_remdups_adj [of "a # xs"] by (cases "remdups_adj (a # xs)") auto
      ultimately have "remdups_adj (take n (a # xs)) = take 1 (remdups_adj (a # xs))"
        using Suc by auto
      then show ?thesis by blast
    next
      case (Cons y ys)
      then obtain m' zs where "m = Suc m'" "remdups_adj xs = y # zs" "ys = take m' zs"
        by (cases m; cases "remdups_adj xs") auto
      then have "remdups_adj (take n (a # xs)) =
          take (if a = y then m else Suc m) (remdups_adj (a # xs))"
        using Suc m by (simp add: remdups_adj_Cons)
      then show ?thesis by blast
    qed
  qed
qed

lemma status_trace_take: "prefix (status_trace (take n h)) (status_trace h)"
proof -
  obtain m where "remdups_adj (take n (map status h)) = take m (remdups_adj (map status h))"
    using remdups_adj_take by blast
  then show ?thesis
    by (simp add: status_trace_def take_map take_is_prefix)
qed

text \<open>The statuses a run shows, one entry per observable point.\<close>

lemma run_history_statuses:
  "map status (run_history loads timeout agent problem url key senv eenv) \<in>
     {[PENDING, FAILED], [PENDING, PENDING, FAILED], [PENDING, PENDING, QUEUED, RUNNING],
      [PENDING, PENDING, QUEUED, RUNNING, COMPLETED],
      [PENDING, PENDING, QUEUED, RUNNING, FAILED]}"
  by (auto simp add: run_history_def submit_run_def execute_agent_run_def Let_def
        split: zip_upload.splits sum.splits option.splits exn.splits)

lemma run_history_nonempty: "run_history loads timeout agent problem url key senv eenv \<noteq> []"
  using run_history_statuses [of loads timeout agent problem url key senv eenv] by auto

lemma status_last: "h \<noteq> [] \<Longrightarrow> status (last h) = last (map status h)"
  by (simp add: last_map)

lemma run_history_scheduled:
  assumes "snd (submit_run agent problem url key senv) \<noteq> None"
  shows "map status (fst (submit_run agent problem url key senv)) =
           [PENDING, PENDING, QUEUED]"
    and "run_history loads timeout agent problem url key senv eenv =
           fst (submit_run agent problem url key senv) @
           execute_agent_run (last (fst (submit_run agent problem url key senv)))
             (now_started eenv)
             (map_option Inr (run_agent loads timeout (sandbox eenv))) (now_completed eenv)"
  using assms
  by (auto simp add: run_history_def submit_run_def Let_def
        split: zip_upload.splits sum.splits option.splits)

lemma run_history_finished:
  assumes "snd (submit_run agent problem url key senv) \<noteq> None"
    and "run_agent loads timeout (sandbox eenv) = Some result"
  shows "status (last (run_history loads timeout agent problem url key senv eenv)) =
           (if res_success result then COMPLETED else FAILED) \<and>
         error (last (run_history loads timeout agent problem url key senv eenv)) =
           res_error result \<and>
         (\<forall>r \<in> set (run_history loads timeout agent problem url key senv eenv).
            status r \<noteq> TIMEOUT)"
proof -
  have "\<forall>r \<in> set (fst (submit_run agent problem url key senv)). status r \<noteq> TIMEOUT"
  proof
    fix r assume "r \<in> set (fst (submit_run agent problem url key senv))"
    then have "status r \<in> set (map status (fst (submit_run agent problem url key senv)))"
      by simp
    then show "status r \<noteq> TIMEOUT"
      using run_history_scheduled(1) [OF assms(1)] by auto
  qed
  then show ?thesis
    using run_history_scheduled(2) [OF assms(1), of loads timeout eenv] assms(2)
    by (auto simp add: execute_agent_run_def Let_def)
qed

text \<open>
  C3: the statuses a run record shows, in the order in which they are observed and with
  repetitions of the same status dropped, are an initial segment of
  Pending, Queued, Running, terminal or of Pending, Failed, at every moment; once the
  record shows a terminal status the sequence is exactly one of the two; a terminal
  status is only ever the last thing observed, so no status changes after it; and a run
  does reach a terminal status as soon as its submission fails or its sandbox call
  returns. Which of the two it is: when the extraction of the archive fails, or the
  resolution of the agent artifact fails, no task is scheduled and the sequence is
  exactly Pending, Failed, with neither Queued nor Running; otherwise a task is
  scheduled and the sequence goes through Pending, Queued, Running, and ends with
  Completed or Failed once the sandbox call has returned.
\<close>

theorem run_status_sequence:
  assumes "h = run_history loads timeout agent problem url key senv eenv"
  shows "(\<exists>cycle \<in> set lifecycles. prefix (status_trace (take n h)) cycle) \<and>
         (terminal (status (last h)) \<longrightarrow> status_trace h \<in> set lifecycles) \<and>
         (\<forall>r \<in> set (butlast h). \<not> terminal (status r)) \<and>
         (snd (submit_run agent problem url key senv) = None \<or>
          run_agent loads timeout (sandbox eenv) \<noteq> None \<longrightarrow> terminal (status (last h))) \<and>
         ((\<exists>msg. upload senv = ZipRaised msg) \<longrightarrow>
            status_trace h = [PENDING, FAILED] \<and>
            snd (submit_run agent problem url key senv) = None) \<and>
         ((\<forall>msg. upload senv \<noteq> ZipRaised msg) \<and> (\<exists>msg. download senv = Inl msg) \<longrightarrow>
            status_trace h = [PENDING, FAILED] \<and>
            snd (submit_run agent problem url key senv) = None) \<and>
         ((\<forall>msg. upload senv \<noteq> ZipRaised msg) \<and> (\<exists>path. download senv = Inr path) \<longrightarrow>
            snd (submit_run agent problem url key senv) \<noteq> None \<and>
            prefix [PENDING, QUEUED, RUNNING] (status_trace h) \<and>
            (run_agent loads timeout (sandbox eenv) = None \<longrightarrow>
               status_trace h = [PENDING, QUEUED, RUNNING]) \<and>
            (\<forall>result. run_agent loads timeout (sandbox eenv) = Some result \<longrightarrow>
               status_trace h =
                 [PENDING, QUEUED, RUNNING, if res_success result then COMPLETED else FAILED]))"
proof (intro conjI)
  have cases: "map status h \<in>
     {[PENDING, FAILED], [PENDING, PENDING, FAILED], [PENDING, PENDING, QUEUED, RUNNING],
      [PENDING, PENDING, QUEUED, RUNNING, COMPLETED],
      [PENDING, PENDING, QUEUED, RUNNING, FAILED]}"
    unfolding assms by (rule run_history_statuses)
  have ne: "h \<noteq> []" unfolding assms by (rule run_history_nonempty)
  have "\<exists>cycle \<in> set lifecycles. prefix (status_trace h) cycle"
    using cases by (auto simp add: status_trace_def lifecycles_def)
  then obtain cycle where "cycle \<in> set lifecycles" "prefix (status_trace h) cycle"
    by blast
  moreover have "prefix (status_trace (take n h)) (status_trace h)"
    by (rule status_trace_take)
  ultimately show "\<exists>cycle \<in> set lifecycles. prefix (status_trace (take n h)) cycle"
    using prefix_order.trans by blast
  show "terminal (status (last h)) \<longrightarrow> status_trace h \<in> set lifecycles"
    using cases by (auto simp add: status_last [OF ne] status_trace_def lifecycles_def
        terminal_def)
  show "\<forall>r \<in> set (butlast h). \<not> terminal (status r)"
  proof
    fix r assume "r \<in> set (butlast h)"
    then have "status r \<in> set (map status (butlast h))"
      by simp
    then have "status r \<in> set (butlast (map status h))"
      by (simp only: map_butlast)
    then show "\<not> terminal (status r)"
      using cases by (auto simp add: terminal_def)
  qed
  show "snd (submit_run agent problem url key senv) = None \<or>
        run_agent loads timeout (sandbox eenv) \<noteq> None \<longrightarrow> terminal (status (last h))"
  proof
    assume "snd (submit_run agent problem url key senv) = None \<or>
            run_agent loads timeout (sandbox eenv) \<noteq> None"
    then show "terminal (status (last h))"
    proof
      assume "snd (submit_run agent problem url key senv) = None"
      then show ?thesis
        unfolding assms
        by (auto simp add: run_history_def submit_run_def Let_def terminal_def
              split: zip_upload.splits sum.splits option.splits)
    next
      assume r: "run_agent loads timeout (sandbox eenv) \<noteq> None"
      show ?thesis
      proof (cases "snd (submit_run agent problem url key senv)")
        case None
        then show ?thesis
          unfolding assms
          by (auto simp add: run_history_def submit_run_def Let_def terminal_def
                split: zip_upload.splits sum.splits option.splits)
      next
        case (Some t)
        then have s: "snd (submit_run agent problem url key senv) \<noteq> None" by simp
        from r obtain result where "run_agent loads timeout (sandbox eenv) = Some result"
          by blast
        from run_history_finished [OF s this] show ?thesis
          unfolding assms by (simp add: terminal_def)
      qed
    qed
  qed
  show "(\<exists>msg. upload senv = ZipRaised msg) \<longrightarrow>
            status_trace h = [PENDING, FAILED] \<and>
            snd (submit_run agent problem url key senv) = None"
    unfolding assms
    by (auto simp add: run_history_def submit_run_def status_trace_def Let_def)
  show "(\<forall>msg. upload senv \<noteq> ZipRaised msg) \<and> (\<exists>msg. download senv = Inl msg) \<longrightarrow>
            status_trace h = [PENDING, FAILED] \<and>
            snd (submit_run agent problem url key senv) = None"
    unfolding assms
    by (auto simp add: run_history_def submit_run_def status_trace_def Let_def
          split: zip_upload.splits)
  show "(\<forall>msg. upload senv \<noteq> ZipRaised msg) \<and> (\<exists>path. download senv = Inr path) \<longrightarrow>
            snd (submit_run agent problem url key senv) \<noteq> None \<and>
            prefix [PENDING, QUEUED, RUNNING] (status_trace h) \<and>
            (run_agent loads timeout (sandbox eenv) = None \<longrightarrow>
               status_trace h = [PENDING, QUEUED, RUNNING]) \<and>
            (\<forall>result. run_agent loads timeout (sandbox eenv) = Some result \<longrightarrow>
               status_trace h =
                 [PENDING, QUEUED, RUNNING, if res_success result then COMPLETED else FAILED])"
    unfolding assms
    by (auto simp add: run_history_def submit_run_def execute_agent_run_def status_trace_def
          Let_def split: zip_upload.splits option.splits)
qed

text \<open>Concrete runs: one whose unit exits cleanly, one whose unit outlives the timeout.\<close>

lemma wait_timeout: "wait_for_container timeout_polls 300 = Some (Inl TimeoutError)"
  by (simp add: timeout_polls_def)

lemma demo_scheduled:
  "snd (submit_run ''agent-7'' ''fix the bug'' ''https://llm.example/v1/chat'' ''sk-run-1''
          demo_submit) \<noteq> None"
  by (simp add: submit_run_def demo_submit_def Let_def)

lemma demo_clean_statuses:
  "map status (demo_history clean_exit_sandbox) =
     [PENDING, PENDING, QUEUED, RUNNING, COMPLETED]"
  by (simp add: demo_history_def run_history_def submit_run_def execute_agent_run_def
        run_agent_def demo_submit_def demo_exec_def clean_exit_sandbox_def demo_wait
        demo_loads_def failure_text_def Let_def)

lemma demo_clean_last:
  "started_at (last (demo_history clean_exit_sandbox)) = Some 102 \<and>
   completed_at (last (demo_history clean_exit_sandbox)) = Some 110 \<and>
   run_output (last (demo_history clean_exit_sandbox)) = PDict [(''success'', PBool False)]"
  by (simp add: demo_history_def run_history_def submit_run_def execute_agent_run_def
        run_agent_def demo_submit_def demo_exec_def clean_exit_sandbox_def demo_wait
        demo_loads_def failure_text_def Let_def)

theorem run_status_sequence_witness:
  "prefix (status_trace (take 3 (demo_history clean_exit_sandbox)))
     [PENDING, QUEUED, RUNNING, COMPLETED] \<and>
   status_trace (demo_history clean_exit_sandbox) = [PENDING, QUEUED, RUNNING, COMPLETED] \<and>
   list_all (\<lambda>r. \<not> terminal (status r)) (butlast (demo_history clean_exit_sandbox)) \<and>
   terminal (status (last (demo_history clean_exit_sandbox))) \<and>
   status_trace
     (run_history demo_loads 300 ''agent-7'' ''fix the bug'' ''https://llm.example/v1/chat''
        ''sk-run-1'' bad_zip_submit (demo_exec clean_exit_sandbox)) = [PENDING, FAILED] \<and>
   status_trace
     (run_history demo_loads 300 ''agent-7'' ''fix the bug'' ''https://llm.example/v1/chat''
        ''sk-run-1'' no_agent_submit (demo_exec clean_exit_sandbox)) = [PENDING, FAILED] \<and>
   status_trace (demo_history timeout_sandbox) = [PENDING, QUEUED, RUNNING, FAILED]"
proof -
  have h: "demo_history clean_exit_sandbox =
      run_history demo_loads 300 ''agent-7'' ''fix the bug'' ''https://llm.example/v1/chat''
        ''sk-run-1'' demo_submit (demo_exec clean_exit_sandbox)"
    by (simp add: demo_history_def)
  have t: "status_trace (take 3 (demo_history clean_exit_sandbox)) = [PENDING, QUEUED]"
    "status_trace (demo_history clean_exit_sandbox) = [PENDING, QUEUED, RUNNING, COMPLETED]"
    by (simp_all add: status_trace_def take_map [symmetric] demo_clean_statuses)
  have l: "status (last (demo_history clean_exit_sandbox)) = COMPLETED"
    using demo_clean_statuses status_last [of "demo_history clean_exit_sandbox"] by auto
  have a: "prefix (status_trace (take 3 (demo_history clean_exit_sandbox)))
     [PENDING, QUEUED, RUNNING, COMPLETED] \<and>
   status_trace (demo_history clean_exit_sandbox) = [PENDING, QUEUED, RUNNING, COMPLETED] \<and>
   list_all (\<lambda>r. \<not> terminal (status r)) (butlast (demo_history clean_exit_sandbox)) \<and>
   terminal (status (last (demo_history clean_exit_sandbox)))"
    using run_status_sequence [OF h, of 3, THEN conjunct2, THEN conjunct2, THEN conjunct1] t l
    by (simp add: list_all_iff terminal_def)
  have b: "status_trace
     (run_history demo_loads 300 ''agent-7'' ''fix the bug'' ''https://llm.example/v1/chat''
        ''sk-run-1'' bad_zip_submit (demo_exec clean_exit_sandbox)) = [PENDING, FAILED]"
    using run_status_sequence [OF refl, where senv = bad_zip_submit and loads = demo_loads
        and timeout = 300 and agent = "''agent-7''" and problem = "''fix the bug''"
        and url = "''https://llm.example/v1/chat''" and key = "''sk-run-1''"
        and eenv = "demo_exec clean_exit_sandbox" and n = 0,
        THEN conjunct2, THEN conjunct2, THEN conjunct2, THEN conjunct2, THEN conjunct1]
    by (simp add: bad_zip_submit_def)
  have c: "status_trace
     (run_history demo_loads 300 ''agent-7'' ''fix the bug'' ''https://llm.example/v1/chat''
        ''sk-run-1'' no_agent_submit (demo_exec clean_exit_sandbox)) = [PENDING, FAILED]"
    using run_status_sequence [OF refl, where senv = no_agent_submit and loads = demo_loads
        and timeout = 300 and agent = "''agent-7''" and problem = "''fix the bug''"
        and url = "''https://llm.example/v1/chat''" and key = "''sk-run-1''"
        and eenv = "demo_exec clean_exit_sandbox" and n = 0,
        THEN conjunct2, THEN conjunct2, THEN conjunct2, THEN conjunct2, THEN conjunct2,
        THEN conjunct1]
    by (simp add: no_agent_submit_def demo_submit_def)
  have r: "run_agent demo_loads 300 timeout_sandbox =
      Some (error_result (''Execution timed out after '' @ str_int 300 @ '' seconds''))"
    by (simp add: run_agent_def timeout_sandbox_def wait_timeout)
  have d: "status_trace (demo_history timeout_sandbox) = [PENDING, QUEUED, RUNNING, FAILED]"
    using run_status_sequence [OF refl, where senv = demo_submit and loads = demo_loads
        and timeout = 300 and agent = "''agent-7''" and problem = "''fix the bug''"
        and url = "''https://llm.example/v1/chat''" and key = "''sk-run-1''"
        and eenv = "demo_exec timeout_sandbox" and n = 0,
        THEN conjunct2, THEN conjunct2, THEN conjunct2, THEN conjunct2, THEN conjunct2,
        THEN conjunct2] r
    by (simp add: demo_history_def demo_submit_def demo_exec_def error_result_def)
  from a b c d show ?thesis by simp
qed

text \<open>
  C4: at every observable point of every run, the record has a completion time exactly
  when its status is terminal, it has a duration exactly when it has both a start time
  and a completion time, and the duration is then the completion time minus the start
  time.
\<close>

theorem run_record_timestamps:
  "\<forall>r \<in> set (run_history loads timeout agent problem url key senv eenv).
     (completed_at r \<noteq> None) = terminal (status r) \<and>
     (duration_seconds r \<noteq> None) = (started_at r \<noteq> None \<and> completed_at r \<noteq> None) \<and>
     (\<forall>s c. started_at r = Some s \<and> completed_at r = Some c \<longrightarrow>
        duration_seconds r = Some (c - s))"
  by (auto simp add: run_history_def submit_run_def execute_agent_run_def Let_def
        terminal_def split: zip_upload.splits sum.splits option.splits)

theorem run_record_timestamps_witness:
  "completed_at (last (demo_history clean_exit_sandbox)) = Some 110 \<and>
   terminal (status (last (demo_history clean_exit_sandbox))) \<and>
   started_at (last (demo_history clean_exit_sandbox)) = Some 102 \<and>
   duration_seconds (last (demo_history clean_exit_sandbox)) = Some 8"
proof -
  have "demo_history clean_exit_sandbox \<noteq> []"
    using demo_clean_statuses by auto
  then have "last (demo_history clean_exit_sandbox) \<in> set (demo_history clean_exit_sandbox)"
    by simp
  then show ?thesis
    using run_record_timestamps
      [of demo_loads 300 "''agent-7''" "''fix the bug''" "''https://llm.example/v1/chat''"
          "''sk-run-1''" demo_submit "demo_exec clean_exit_sandbox"]
      demo_clean_last
    by (auto simp add: demo_history_def)
qed

text \<open>
  C10: no operation assigns the Cancelled status. Every state of a run record that
  \<open>submit_run\<close> and \<open>execute_agent_run\<close> produce, whatever the sandbox call does, has
  a status other than Cancelled; and \<open>delete_run\<close>, also for a Queued or Running run,
  removes the record and leaves every other record of the registry as it was.
\<close>

theorem cancelled_never_assigned:
  "(\<forall>r \<in> set (run_history loads timeout agent problem url key senv eenv).
      status r \<noteq> CANCELLED) \<and>
   (\<forall>r \<in> set (fst (submit_run agent problem url key senv)). status r \<noteq> CANCELLED) \<and>
   (\<forall>r \<in> set (execute_agent_run run_result started outcome completed).
      status r \<noteq> CANCELLED) \<and>
   (\<forall>st' effects. delete_run stop_raises st rid = Inr (st', effects) \<longrightarrow>
      runs_db st' = (runs_db st)(rid := None))"
proof (intro conjI)
  show "\<forall>r \<in> set (run_history loads timeout agent problem url key senv eenv).
      status r \<noteq> CANCELLED"
  proof
    fix r assume "r \<in> set (run_history loads timeout agent problem url key senv eenv)"
    then have "status r \<in>
        set (map status (run_history loads timeout agent problem url key senv eenv))"
      by simp
    then show "status r \<noteq> CANCELLED"
      using run_history_statuses [of loads timeout agent problem url key senv eenv] by auto
  qed
  show "\<forall>r \<in> set (fst (submit_run agent problem url key senv)). status r \<noteq> CANCELLED"
    by (auto simp add: submit_run_def Let_def split: zip_upload.splits sum.splits)
  show "\<forall>r \<in> set (execute_agent_run run_result started outcome completed).
      status r \<noteq> CANCELLED"
    by (auto simp add: execute_agent_run_def Let_def
          split: option.splits sum.splits exn.splits)
  show "\<forall>st' effects. delete_run stop_raises st rid = Inr (st', effects) \<longrightarrow>
      runs_db st' = (runs_db st)(rid := None)"
    by (auto simp add: delete_run_def Let_def split: option.splits prod.splits if_splits)
qed

theorem cancelled_never_assigned_witness:
  "list_all (\<lambda>r. status r \<noteq> CANCELLED) (demo_history clean_exit_sandbox) \<and>
   list_all (\<lambda>r. status r \<noteq> CANCELLED)
     (execute_agent_run (demo_record QUEUED) 102 (Some (Inl TimeoutError)) 110) \<and>
   (case delete_run (\<lambda>c. False) (demo_state RUNNING) ''run-1'' of
      Inr (st', effects) \<Rightarrow> runs_db st' ''run-1'' = None
    | Inl e \<Rightarrow> False)"
proof -
  note c = cancelled_never_assigned
    [of demo_loads 300 "''agent-7''" "''fix the bug''" "''https://llm.example/v1/chat''"
        "''sk-run-1''" demo_submit "demo_exec clean_exit_sandbox" "demo_record QUEUED" 102
        "Some (Inl TimeoutError)" 110 "\<lambda>c. False" "demo_state RUNNING" "''run-1''"]
  have a: "list_all (\<lambda>r. status r \<noteq> CANCELLED) (demo_history clean_exit_sandbox)"
    using c [THEN conjunct1] by (simp only: list_all_iff demo_history_def)
  have b: "list_all (\<lambda>r. status r \<noteq> CANCELLED)
     (execute_agent_run (demo_record QUEUED) 102 (Some (Inl TimeoutError)) 110)"
    using c [THEN conjunct2, THEN conjunct2, THEN conjunct1] by (simp only: list_all_iff)
  obtain st' where
    d: "delete_run (\<lambda>c. False) (demo_state RUNNING) ''run-1'' =
          Inr (st', [StopRun ''run-1'', ContainerStop ''c1'', ContainerRemove ''c1'',
                     RecordDeleted ''run-1''])"
    by (simp add: delete_run_def demo_state_def demo_record_def stop_run_def)
  then have "runs_db st' = (runs_db (demo_state RUNNING))(''run-1'' := None)"
    using c [THEN conjunct2, THEN conjunct2, THEN conjunct2] by blast
  then have "runs_db st' ''run-1'' = None"
    by simp
  with d a b show ?thesis
    by simp
qed

section \<open>Timeouts\<close>

text \<open>
  The wait loop returns once the clock reaches the timeout, at the latest: every pass
  sleeps for a second, so the clock does reach it. It returns the exit code of the unit
  when a poll before that sees the unit exited or dead, and it raises the timeout error
  as soon as the clock test fails when no earlier poll did.
\<close>

lemma wait_for_container_returns:
  "\<exists>p \<in> set ps. of_int timeout \<le> elapsed p \<Longrightarrow> wait_for_container ps timeout \<noteq> None"
  by (induction ps) (auto split: reload_result.splits)

lemma wait_for_container_exits:
  assumes "\<forall>p \<in> set before. elapsed p < of_int timeout \<and>
             (\<exists>st code. reload p = Reloaded st code \<and> st \<noteq> ''exited'' \<and> st \<noteq> ''dead'')"
    and "elapsed q < of_int timeout" and "reload q = Reloaded st code"
    and "st = ''exited'' \<or> st = ''dead''"
  shows "wait_for_container (before @ q # rest) timeout =
           Some (Inr \<lparr>exit_code = code, container_status = st\<rparr>)"
  using assms by (induction before) auto

lemma wait_for_container_times_out:
  assumes "\<forall>p \<in> set before. elapsed p < of_int timeout \<and>
             (\<exists>st code. reload p = Reloaded st code \<and> st \<noteq> ''exited'' \<and> st \<noteq> ''dead'')"
    and "of_int timeout \<le> elapsed q"
  shows "wait_for_container (before @ q # rest) timeout = Some (Inl TimeoutError)"
  using assms by (induction before) auto

text \<open>
  C1 does not hold of the code. When the execution of a run exceeds the timeout,
  \<open>run_agent\<close> catches the timeout error of the wait loop itself and returns a failure
  dictionary; \<open>execute_agent_run\<close> then records the status Failed, and its handler that
  would record Timeout never runs. No run record ever shows the status Timeout.
\<close>

theorem timeout_recorded_as_failed:
  assumes "snd (submit_run agent problem url key senv) \<noteq> None"
    and "setup_raises (sandbox eenv) = None"
    and "wait_for_container (polls (sandbox eenv)) timeout = Some (Inl TimeoutError)"
    and "h = run_history loads timeout agent problem url key senv eenv"
  shows "status (last h) = FAILED \<and>
         error (last h) =
           Some (''Execution timed out after '' @ str_int timeout @ '' seconds'') \<and>
         (\<forall>r \<in> set h. status r \<noteq> TIMEOUT \<and> status r \<noteq> COMPLETED)"
proof -
  have r: "run_agent loads timeout (sandbox eenv) =
      Some (error_result (''Execution timed out after '' @ str_int timeout @ '' seconds''))"
    using assms(2,3) by (simp add: run_agent_def)
  have "\<forall>r \<in> set h. status r \<noteq> COMPLETED"
  proof
    fix x assume "x \<in> set h"
    then have "status x \<in> set (map status h)" by simp
    moreover have "map status h = [PENDING, PENDING, QUEUED, RUNNING, FAILED]"
      unfolding assms(4)
      using run_history_scheduled(1) [OF assms(1)]
        run_history_scheduled(2) [OF assms(1), of loads timeout eenv] r
      by (simp add: execute_agent_run_def error_result_def Let_def)
    ultimately show "status x \<noteq> COMPLETED" by auto
  qed
  then show ?thesis
    using run_history_finished [OF assms(1) r] unfolding assms(4)
    by (simp add: error_result_def)
qed

theorem timeout_recorded_as_failed_witness:
  "wait_for_container (polls timeout_sandbox) 300 = Some (Inl TimeoutError) \<and>
   status (last (demo_history timeout_sandbox)) = FAILED \<and>
   error (last (demo_history timeout_sandbox)) =
     Some ''Execution timed out after 300 seconds'' \<and>
   list_all (\<lambda>r. status r \<noteq> TIMEOUT \<and> status r \<noteq> COMPLETED) (demo_history timeout_sandbox)"
proof -
  have w: "wait_for_container (polls (sandbox (demo_exec timeout_sandbox))) 300 =
      Some (Inl TimeoutError)"
    by (simp add: demo_exec_def timeout_sandbox_def wait_timeout)
  have s: "setup_raises (sandbox (demo_exec timeout_sandbox)) = None"
    by (simp add: demo_exec_def timeout_sandbox_def)
  have h: "demo_history timeout_sandbox =
      run_history demo_loads 300 ''agent-7'' ''fix the bug'' ''https://llm.example/v1/chat''
        ''sk-run-1'' demo_submit (demo_exec timeout_sandbox)"
    by (simp add: demo_history_def)
  have n: "str_int 300 = ''300''"
    by (simp add: str_int_def)
  show ?thesis
    using timeout_recorded_as_failed [OF demo_scheduled s w h] w n
    by (simp add: list_all_iff demo_exec_def)
qed

section \<open>Exit code and recorded status\<close>

text \<open>
  C9, as stated, fails: a unit can exit with code 0 and the run still be recorded as
  Failed. Here the unit exits with code 0 and its captured streams are not valid UTF-8,
  so decoding them raises, \<open>run_agent\<close> returns a failure dictionary, and the recorded
  status is Failed.
\<close>

theorem clean_exit_failed_counterexample:
  "wait_for_container (polls undecodable_sandbox) 300 =
     Some (Inr \<lparr>exit_code = 0, container_status = ''exited''\<rparr>) \<and>
   status (last (demo_history undecodable_sandbox)) = FAILED"
  by (simp add: demo_history_def run_history_def submit_run_def execute_agent_run_def
        run_agent_def demo_submit_def demo_exec_def undecodable_sandbox_def demo_wait
        error_result_def Let_def)

lemma run_agent_success_exit:
  assumes "setup_raises env = None"
    and "wait_for_container (polls env) timeout = Some (Inr w)"
  shows "\<exists>result. run_agent loads timeout env = Some result \<and>
           (res_success result \<longrightarrow> exit_code w = 0)"
proof (cases "container_logs env")
  case (Inl msg)
  then show ?thesis
    using assms by (simp add: run_agent_def error_result_def)
next
  case (Inr lg)
  show ?thesis
  proof (cases "case output_file env of
                  Some text \<Rightarrow> loads text
                | None \<Rightarrow> Inr (extract_output_from_logs loads lg)")
    case (Inl msg)
    then show ?thesis
      using assms Inr by (simp add: run_agent_def error_result_def)
  next
    case (Inr doc)
    then show ?thesis
      using assms \<open>container_logs env = Inr lg\<close> by (simp add: run_agent_def)
  qed
qed

text \<open>
  A unit that exits after the last poll and before the deadline is not seen as exited:
  the next clock test fails first, the wait raises the timeout error, and the run is
  recorded as Failed whatever the exit code of the unit is.
\<close>

lemma late_exit_times_out:
  "wait_for_container late_exit_polls 300 = Some (Inl TimeoutError) \<and>
   status (last (demo_history
     \<lparr>setup_raises = None, polls = late_exit_polls, container_logs = Inr demo_logs,
      output_file = Some failure_text\<rparr>)) = FAILED"
  by (simp add: demo_history_def run_history_def submit_run_def execute_agent_run_def
        run_agent_def demo_submit_def demo_exec_def late_exit_polls_def error_result_def
        Let_def)

text \<open>
  C9, amended: for every run that reaches sandbox execution and whose execution unit the
  poll loop of the sandbox manager sees exited or dead before the timeout elapses, so
  that the wait returns the exit code of the unit, the recorded status is Completed only
  if that exit code is 0; and when, in addition, capturing the streams and reading the
  output raise no exception, the recorded status is Completed if and only if the exit
  code is 0, and Failed otherwise. The output document is recorded as it is and its
  success flag is never consulted: the status is the same for every document.
\<close>

theorem completed_iff_clean_exit:
  assumes "snd (submit_run agent problem url key senv) \<noteq> None"
    and "setup_raises (sandbox eenv) = None"
    and "wait_for_container (polls (sandbox eenv)) timeout = Some (Inr w)"
    and "h = run_history loads timeout agent problem url key senv eenv"
  shows "(status (last h) = COMPLETED \<longrightarrow> exit_code w = 0) \<and>
         (container_logs (sandbox eenv) = Inr lg \<and>
          (case output_file (sandbox eenv) of
             None \<Rightarrow> doc = extract_output_from_logs loads lg
           | Some text \<Rightarrow> loads text = Inr doc) \<longrightarrow>
            (status (last h) = COMPLETED) = (exit_code w = 0) \<and>
            (status (last h) = FAILED) = (exit_code w \<noteq> 0) \<and>
            run_output (last h) = doc)"
proof (intro conjI impI)
  obtain result where r: "run_agent loads timeout (sandbox eenv) = Some result"
    and ok: "res_success result \<longrightarrow> exit_code w = 0"
    using run_agent_success_exit [OF assms(2,3)] by blast
  assume "status (last h) = COMPLETED"
  then show "exit_code w = 0"
    using run_history_finished [OF assms(1) r] ok unfolding assms(4)
    by (auto split: if_splits)
next
  assume c: "container_logs (sandbox eenv) = Inr lg \<and>
          (case output_file (sandbox eenv) of
             None \<Rightarrow> doc = extract_output_from_logs loads lg
           | Some text \<Rightarrow> loads text = Inr doc)"
  then have r: "run_agent loads timeout (sandbox eenv) =
      Some \<lparr>res_success = (exit_code w = 0), res_output = Some doc, res_error = None,
            res_logs = split_nl lg, res_exit_code = Some (exit_code w)\<rparr>"
    using assms(2,3) by (auto simp add: run_agent_def split: option.splits)
  show "(status (last h) = COMPLETED) = (exit_code w = 0)"
    using run_history_finished [OF assms(1) r] unfolding assms(4) by simp
  show "(status (last h) = FAILED) = (exit_code w \<noteq> 0)"
    using run_history_finished [OF assms(1) r] unfolding assms(4) by simp
  show "run_output (last h) = doc"
    unfolding assms(4)
    using run_history_scheduled(2) [OF assms(1), of loads timeout eenv] r
    by (simp add: execute_agent_run_def Let_def)
qed

theorem completed_iff_clean_exit_witness:
  "status (last (demo_history clean_exit_sandbox)) = COMPLETED \<and>
   run_output (last (demo_history clean_exit_sandbox)) = PDict [(''success'', PBool False)]"
proof -
  have w: "wait_for_container (polls (sandbox (demo_exec clean_exit_sandbox))) 300 =
      Some (Inr \<lparr>exit_code = 0, container_status = ''exited''\<rparr>)"
    by (simp add: demo_exec_def clean_exit_sandbox_def demo_wait)
  have s: "setup_raises (sandbox (demo_exec clean_exit_sandbox)) = None"
    by (simp add: demo_exec_def clean_exit_sandbox_def)
  have h: "demo_history clean_exit_sandbox =
      run_history demo_loads 300 ''agent-7'' ''fix the bug'' ''https://llm.example/v1/chat''
        ''sk-run-1'' demo_submit (demo_exec clean_exit_sandbox)"
    by (simp add: demo_history_def)
  show ?thesis
    using completed_iff_clean_exit [OF demo_scheduled s w h, of demo_logs
        "PDict [(''success'', PBool False)]"]
    by (simp add: demo_exec_def clean_exit_sandbox_def demo_loads_def failure_text_def)
qed

section \<open>The bootstrap script\<close>


text \<open>
  The print of line 352 takes the length of the patch after the document has been
  written. The patch is \<^verbatim>\<open>None\<close> when the agent returns a dictionary without a patch and
  no diff is available, and \<^verbatim>\<open>len(None)\<close> raises: the document is on disk with the
  success flag set, and the process ends with status 1.
\<close>

lemma write_output_no_length:
  "py_len (dict_get output_dict ''patch'' (PStr [])) = None \<Longrightarrow>
   write_output output_dict = \<lparr>document = Document (PDict output_dict), exit_status = 1\<rparr>"
  by (simp add: write_output_def)

lemma write_output_length:
  "py_len (dict_get output_dict ''patch'' (PStr [])) = Some n \<Longrightarrow>
   write_output output_dict = \<lparr>document = Document (PDict output_dict), exit_status = 0\<rparr>"
  by (simp add: write_output_def)

lemma runner_script_patch_none:
  "runner_script False (Imported True) (Returned (PDict [(''status'', PStr ''done'')])) None =
     \<lparr>document = Document (PDict [(''result'', PDict [(''status'', PStr ''done'')]),
                              (''patch'', PNone), (''success'', PBool True)]),
      exit_status = 1\<rparr>"
  by (simp add: runner_script_def script_patch_def write_output_def dict_has_def dict_get_def)

lemma runner_script_ended:
  "runner_script has_files (Imported True) (Ended c) git = \<lparr>document = NoFile, exit_status = c\<rparr>"
  by (simp add: runner_script_def)

lemma runner_script_unwritable:
  "runner_script has_files (Imported True) ReturnedUnwritable git =
     \<lparr>document = PartialFile, exit_status = 1\<rparr>"
  by (simp add: runner_script_def)



end
